theory Spec2Isabelle
  imports
    Complex_Main
    "HOL-Library.Char_ord"
    "HOL-Library.List_Lexorder"
    "HOL-Library.Product_Lexorder"
begin

section \<open>Desempenho Comercial: the normalisation and KPI pipeline of app.py\<close>

text \<open>
  The development follows \<^verbatim>\<open>src/app.py\<close>: the currency parser \<^verbatim>\<open>limpar_moeda\<close>,
  the cached loader \<^verbatim>\<open>carregar_dados\<close> (day count, target back-fill, sort, daily
  delta, daily target) and the page script (filters, year/month window, empty check,
  per-date aggregation and running sums).

  Conventions of the embedding.
  \<^item> A float64 cell of a table is a \<open>real option\<close>: \<open>None\<close> is NaN (a missing cell)
    and \<open>Some x\<close> is the number \<open>x\<close>; infinities do not occur in the columns of the
    ledger. The float returned by \<^verbatim>\<open>limpar_moeda\<close> is a \<open>pyfloat\<close>, which has them.
  \<^item> \<open>arred\<close> is the rounding of a real number to the nearest double. The parser
    (\<^verbatim>\<open>float\<close> of a text or of an int) and the subtraction of the daily delta round
    with it. The division of the daily target and the sums of the aggregation are
    taken as exact: their statements do not depend on the rounding.
  \<^item> A Python \<^verbatim>\<open>str\<close> is a \<open>string\<close> whose characters are code points below 256.
  \<^item> A DataFrame is the list of its rows, in row order.
\<close>

subsection \<open>Rounding to a double\<close>

text \<open>The number of binary digits of a natural number.\<close>

fun nbits :: "nat \<Rightarrow> nat" where
  "nbits n = (if n = 0 then 0 else Suc (nbits (n div 2)))"

definition pot2 :: "int \<Rightarrow> real" where
  "pot2 e = (if 0 \<le> e then 2 ^ nat e else 1 / 2 ^ nat (- e))"

text \<open>The binary exponent of a non-zero number: \<open>pot2 e \<le> \<bar>x\<bar> < pot2 (e + 1)\<close>.\<close>

definition expoente :: "real \<Rightarrow> int" where
  "expoente x =
     (let a = \<bar>x\<bar> in
      if 1 \<le> a then int (nbits (nat \<lfloor>a\<rfloor>)) - 1
      else (let c = - int (nbits (nat \<lfloor>1 / a\<rfloor>))
            in if pot2 (c + 1) \<le> a then c + 1 else c))"

text \<open>Rounding to the nearest integer, a tie going to the even one.\<close>

definition par :: "real \<Rightarrow> int" where
  "par y =
     (let f = \<lfloor>y\<rfloor>; r = y - of_int f
      in if r < 1 / 2 then f else if 1 / 2 < r then f + 1 else if even f then f else f + 1)"

text \<open>
  The nearest double of IEEE 754 (binary64, round to nearest, ties to even): 53
  significant bits, and below \<open>pot2 (- 1022)\<close> the fixed spacing \<open>pot2 (- 1074)\<close> of
  the subnormal numbers. The upper end of the range is handled where the result is
  used, with \<open>limite\<close>: a number of that magnitude or more would round to
  \<open>2 ^ 1024\<close>, which is no double.
\<close>

definition arred :: "real \<Rightarrow> real" where
  "arred x =
     (if x = 0 then 0
      else (let e = max (expoente x) (- 1022) - 52 in of_int (par (x / pot2 e)) * pot2 e))"

definition limite :: real where
  "limite = 2 ^ 1024 - 2 ^ 970"

subsection \<open>Python values and the float constructor\<close>

text \<open>
  The value of a cell handed to \<^verbatim>\<open>limpar_moeda\<close>: \<^verbatim>\<open>None\<close> (or pandas' NA/NaT), a
  bool, an int, a float, a str, a list-like value (list, tuple, array) of two or more
  elements, given by its first two elements and the rest, or a scalar object of any
  other class (a \<^verbatim>\<open>Decimal\<close>, a \<^verbatim>\<open>date\<close>, bytes). A real numpy scalar is the int or
  the float it holds; complex numpy scalars are left out.
\<close>

datatype pyfloat = Finite real | PosInf | NegInf | NaN

datatype pyval =
  PNone | PBool bool | PInt int | PFloat pyfloat | PStr string
  | PLista pyval pyval "pyval list" | PObj

datatype pyerror = ValueError | OverflowError

text \<open>
  The double of a real number, as the conversion of a decimal text yields it: beyond
  the range it is an infinity.
\<close>

definition f64 :: "real \<Rightarrow> pyfloat" where
  "f64 x = (if limite \<le> x then PosInf else if x \<le> - limite then NegInf else Finite (arred x))"

text \<open>
  \<^verbatim>\<open>float(n)\<close> for an int: the nearest double, and \<^verbatim>\<open>OverflowError\<close> when the int is
  too large for one.
\<close>

definition float_de_int :: "int \<Rightarrow> pyerror + pyfloat" where
  "float_de_int n =
     (if limite \<le> \<bar>of_int n\<bar> then Inl OverflowError else Inr (Finite (arred (of_int n))))"

text \<open>\<^verbatim>\<open>str.isspace\<close> for one character (the white space \<^verbatim>\<open>str.strip()\<close> removes).\<close>

definition is_space :: "char \<Rightarrow> bool" where
  "is_space c =
     (let n = (of_char c :: nat)
      in (9 \<le> n \<and> n \<le> 13) \<or> (28 \<le> n \<and> n \<le> 32) \<or> n = 133 \<or> n = 160)"

definition strip :: "string \<Rightarrow> string" where
  "strip s = rev (dropWhile is_space (rev (dropWhile is_space s)))"

definition is_digit :: "char \<Rightarrow> bool" where
  "is_digit c = (let n = (of_char c :: nat) in 48 \<le> n \<and> n \<le> 57)"

definition digit_val :: "char \<Rightarrow> nat" where
  "digit_val c = of_char c - 48"

definition lower :: "char \<Rightarrow> char" where
  "lower c =
     (let n = (of_char c :: nat) in if 65 \<le> n \<and> n \<le> 90 then char_of (n + 32) else c)"

text \<open>The decimal value of a digit string, most significant digit first.\<close>

definition digits_val :: "string \<Rightarrow> nat" where
  "digits_val ds = foldl (\<lambda>a c. 10 * a + digit_val c) 0 ds"

text \<open>
  The builtin \<^verbatim>\<open>float(str)\<close>, after the Python language reference and CPython's
  \<^verbatim>\<open>float_from_string\<close>. An underscore is legal only between two digits and is
  dropped; the rest must be, in full,
  \<^verbatim>\<open>[sign] (inf | infinity | nan)\<close> in any letter case, or
  \<^verbatim>\<open>[sign] (digits [. [digits]] | . digits) [(e|E) [sign] digits]\<close>.
  The value is the double nearest to the decimal number, an infinity beyond the
  range: no text makes \<^verbatim>\<open>float\<close> raise \<^verbatim>\<open>OverflowError\<close>.
\<close>

fun underscores_ok :: "char \<Rightarrow> string \<Rightarrow> bool" where
  "underscores_ok prev [] = (prev \<noteq> CHR ''_'')"
| "underscores_ok prev (c # cs) =
     ((if c = CHR ''_'' then is_digit prev
       else (prev = CHR ''_'' \<longrightarrow> is_digit c)) \<and> underscores_ok c cs)"

definition split_sign :: "string \<Rightarrow> bool \<times> string" where
  "split_sign s =
     (case s of
        [] \<Rightarrow> (False, [])
      | c # cs \<Rightarrow>
          if c = CHR ''-'' then (True, cs)
          else if c = CHR ''+'' then (False, cs)
          else (False, s))"

definition parse_exponent :: "string \<Rightarrow> int option" where
  "parse_exponent s =
     (case s of
        [] \<Rightarrow> Some 0
      | c # cs \<Rightarrow>
          if c = CHR ''e'' \<or> c = CHR ''E'' then
            (let (neg, ds) = split_sign cs
             in if ds \<noteq> [] \<and> list_all is_digit ds
                then Some (if neg then - int (digits_val ds) else int (digits_val ds))
                else None)
          else None)"

definition scale10 :: "nat \<Rightarrow> int \<Rightarrow> real" where
  "scale10 m e = (if 0 \<le> e then real m * 10 ^ nat e else real m / 10 ^ nat (- e))"

definition parse_decimal :: "string \<Rightarrow> real option" where
  "parse_decimal s =
     (let ip = takeWhile is_digit s;
          r1 = dropWhile is_digit s;
          dot = (r1 \<noteq> [] \<and> hd r1 = CHR ''.'');
          r2 = (if dot then tl r1 else r1);
          fp = (if dot then takeWhile is_digit r2 else []);
          r3 = (if dot then dropWhile is_digit r2 else r2)
      in if ip = [] \<and> fp = [] then None
         else (case parse_exponent r3 of
                 None \<Rightarrow> None
               | Some e \<Rightarrow> Some (scale10 (digits_val (ip @ fp)) (e - int (length fp)))))"

text \<open>
  The white space \<^verbatim>\<open>float\<close> itself trims from a text: the ASCII white space of C and the
  two spaces above 127. The separators 28 to 31, which \<^verbatim>\<open>str.strip()\<close> removes, stay
  and make the text invalid.
\<close>

definition is_space_float :: "char \<Rightarrow> bool" where
  "is_space_float c =
     (let n = (of_char c :: nat) in (9 \<le> n \<and> n \<le> 13) \<or> n = 32 \<or> n = 133 \<or> n = 160)"

definition strip_float :: "string \<Rightarrow> string" where
  "strip_float s = rev (dropWhile is_space_float (rev (dropWhile is_space_float s)))"

definition py_float :: "string \<Rightarrow> pyerror + pyfloat" where
  "py_float s =
     (let t = strip_float s in
      if \<not> underscores_ok (CHR ''.'') t then Inl ValueError
      else
        (let (neg, body) = split_sign (filter (\<lambda>c. c \<noteq> CHR ''_'') t);
             word = map lower body
         in if word = ''inf'' \<or> word = ''infinity'' then Inr (if neg then NegInf else PosInf)
            else if word = ''nan'' then Inr NaN
            else (case parse_decimal body of
                    None \<Rightarrow> Inl ValueError
                  | Some x \<Rightarrow> Inr (f64 (if neg then - x else x)))))"

subsection \<open>The currency parser \<^verbatim>\<open>limpar_moeda\<close> (app.py, lines 25 to 41)\<close>

text \<open>\<^verbatim>\<open>v.replace(old, "")\<close> for a two-character \<^verbatim>\<open>old\<close>: one pass, left to right.\<close>

fun remove2 :: "char \<Rightarrow> char \<Rightarrow> string \<Rightarrow> string" where
  "remove2 a b (x # y # zs) =
     (if x = a \<and> y = b then remove2 a b zs else x # remove2 a b (y # zs))"
| "remove2 a b zs = zs"

text \<open>
  The look-ahead \<^verbatim>\<open>(?=\d{3},)\<close> of the regular expression, tested on the text that
  follows a dot.
\<close>

fun milhar_adiante :: "string \<Rightarrow> bool" where
  "milhar_adiante (a # b # c # d # _) =
     (is_digit a \<and> is_digit b \<and> is_digit c \<and> d = CHR '','')"
| "milhar_adiante _ = False"

text \<open>
  \<^verbatim>\<open>re.sub(r"\.(?=\d{3},)", "", v)\<close>: every match is one dot, the look-ahead consumes
  nothing, so each dot is tested against the text after it and dropped on a match.
\<close>

fun sub_milhar :: "string \<Rightarrow> string" where
  "sub_milhar [] = []"
| "sub_milhar (c # cs) =
     (if c = CHR ''.'' \<and> milhar_adiante cs then sub_milhar cs else c # sub_milhar cs)"

definition virgula_para_ponto :: "string \<Rightarrow> string" where
  "virgula_para_ponto v = map (\<lambda>c. if c = CHR '','' then CHR ''.'' else c) v"

text \<open>
  \<^verbatim>\<open>pd.isna\<close> on a scalar: None and a NaN float are missing. On a list-like value
  it is an array of booleans, and the \<^verbatim>\<open>if\<close> of line 26 raises \<^verbatim>\<open>ValueError\<close> on an
  array of two or more of them.
\<close>

definition isna :: "pyval \<Rightarrow> bool" where
  "isna v = (v = PNone \<or> v = PFloat NaN)"

text \<open>
  The body of \<^verbatim>\<open>limpar_moeda\<close>. The result is \<open>Inr\<close> of the float returned, or
  \<open>Inl\<close> of an exception that escapes. The \<^verbatim>\<open>try\<close>/\<^verbatim>\<open>except\<close> of lines 37 to 40
  turns a failure of \<^verbatim>\<open>float(v)\<close> on the text into 0.0; the test of line 26 and
  \<^verbatim>\<open>float(valor)\<close> of line 29 stand outside it.
\<close>

definition limpar_moeda :: "pyval \<Rightarrow> pyerror + pyfloat" where
  "limpar_moeda valor =
     (case valor of
        PLista a b cs \<Rightarrow> Inl ValueError
      | _ \<Rightarrow>
          if isna valor then Inr (Finite 0)
          else
            (case valor of
               PBool b \<Rightarrow> Inr (Finite (if b then 1 else 0))
             | PInt n \<Rightarrow> float_de_int n
             | PFloat f \<Rightarrow> Inr f
             | PStr s \<Rightarrow>
                 (let v = strip s in
                  if v = '''' \<or> v = ''-'' then Inr (Finite 0)
                  else
                    (let v1 = strip (remove2 (CHR ''r'') (CHR ''$'')
                                (remove2 (CHR ''R'') (CHR ''$'') v));
                         v2 = sub_milhar v1;
                         v3 = virgula_para_ponto v2
                     in (case py_float v3 of
                           Inr f \<Rightarrow> Inr f
                         | Inl _ \<Rightarrow> Inr (Finite 0))))
             | _ \<Rightarrow> Inr (Finite 0)))"

text \<open>
  The rule of the thousands separator in the words of the specification: the dot at
  position \<open>i\<close> is a separator when the three characters after it are digits and the
  fourth is a comma; exactly the separators are removed.
\<close>

definition separador_milhar :: "string \<Rightarrow> nat \<Rightarrow> bool" where
  "separador_milhar s i =
     (i + 4 < length s \<and> s ! i = CHR ''.'' \<and> is_digit (s ! (i + 1)) \<and>
      is_digit (s ! (i + 2)) \<and> is_digit (s ! (i + 3)) \<and> s ! (i + 4) = CHR '','')"

definition sem_separadores :: "string \<Rightarrow> string" where
  "sem_separadores s = map (\<lambda>i. s ! i) (filter (\<lambda>i. \<not> separador_milhar s i) [0..<length s])"

subsection \<open>The ledger table\<close>

text \<open>
  A time stamp is (year, month, day, time of day); the lexicographic order of the
  tuple is the order of time. A monthly period (\<^verbatim>\<open>dt.to_period("M")\<close>) is
  (year, month).
\<close>

type_synonym carimbo = "int \<times> nat \<times> nat \<times> nat"
type_synonym periodo = "int \<times> nat"

text \<open>
  One row of the DataFrame. \<open>Data\<close> is the column after
  \<^verbatim>\<open>pd.to_datetime(..., errors="coerce")\<close> (line 67): \<open>None\<close> is NaT, the date that
  did not parse. \<open>Real_col\<close> is the column \<^verbatim>\<open>Real\<close>: a float64 column of the file is
  not converted (line 64 converts columns of objects only), so a cell of it may be
  NaN. \<open>Meta_Mes\<close> is the column \<^verbatim>\<open>Meta Mes\<close> (written with a circumflex in the
  source) as a number; a NaN target would be treated by the back-fill exactly as a
  zero target is. \<open>DIAS\<close>, \<open>Real_Variacao\<close> and \<open>Meta_Dia\<close> are the columns the
  loader adds; each step overwrites its column, whatever it held before.
\<close>

record linha =
  Nome_Loja :: "string option"
  Produto :: "string option"
  Regional :: "string option"
  Coordenador :: "string option"
  Data :: "carimbo option"
  Real_col :: "real option"
  Meta_Mes :: real
  DIAS :: "nat option"
  Real_Variacao :: "real option"
  Meta_Dia :: "real option"

type_synonym tabela = "linha list"

definition ano_mes :: "linha \<Rightarrow> periodo option" where
  "ano_mes r = map_option (\<lambda>(a, m, d, t). (a, m)) (Data r)"

text \<open>
  The group key \<^verbatim>\<open>["Nome_Loja", "ano_mes"]\<close>. \<^verbatim>\<open>groupby\<close> drops a row whose key has
  a null component: such a row is in no group.
\<close>

definition chave :: "linha \<Rightarrow> (string \<times> periodo) option" where
  "chave r =
     (case (Nome_Loja r, ano_mes r) of
        (Some l, Some p) \<Rightarrow> Some (l, p)
      | _ \<Rightarrow> None)"

definition grupo :: "string \<times> periodo \<Rightarrow> tabela \<Rightarrow> tabela" where
  "grupo k df = filter (\<lambda>r. chave r = Some k) df"

subsection \<open>\<^verbatim>\<open>groupby(...).transform(f)\<close>\<close>

text \<open>
  \<open>distribui outs ks\<close> hands the outputs of the groups back to the rows: going down
  the key column, a row of group \<open>k\<close> takes the next unused element of \<open>outs k\<close>; a
  row without a group gets NaN.
\<close>

fun distribui :: "('k \<Rightarrow> 'w list) \<Rightarrow> 'k option list \<Rightarrow> 'w option list" where
  "distribui outs [] = []"
| "distribui outs (None # ks) = None # distribui outs ks"
| "distribui outs (Some k # ks) =
     (case outs k of
        [] \<Rightarrow> None # distribui outs ks
      | w # ws \<Rightarrow> Some w # distribui (outs(k := ws)) ks)"

text \<open>
  \<open>transform ks col f\<close>: \<open>f\<close> is applied to the values of each group, taken in row
  order, and the results are aligned with the rows.
\<close>

definition transform :: "'k option list \<Rightarrow> 'v list \<Rightarrow> ('v list \<Rightarrow> 'w list) \<Rightarrow> 'w option list" where
  "transform ks col f =
     distribui (\<lambda>k. f (map snd (filter (\<lambda>p. fst p = Some k) (zip ks col)))) ks"

subsection \<open>\<^verbatim>\<open>carregar_dados\<close> (app.py, lines 54 to 104)\<close>

text \<open>Lines 71 to 76: the table \<^verbatim>\<open>dias\<close>, one row per group with its size.\<close>

definition dias :: "tabela \<Rightarrow> ((string \<times> periodo) \<times> nat) list" where
  "dias df =
     map (\<lambda>k. (k, length (grupo k df))) (sort (remdups (List.map_filter chave df)))"

text \<open>Line 77: the left merge on the group key; no match leaves \<open>DIAS\<close> at NaN.\<close>

definition merge_dias :: "tabela \<Rightarrow> tabela" where
  "merge_dias df =
     map (\<lambda>r. r\<lparr>DIAS := (case chave r of None \<Rightarrow> None | Some k \<Rightarrow> map_of (dias df) k)\<rparr>) df"

text \<open>\<^verbatim>\<open>Series.bfill()\<close>: a missing value takes the next valid value after it.\<close>

fun next_valid :: "'a option list \<Rightarrow> 'a option" where
  "next_valid [] = None"
| "next_valid (Some v # xs) = Some v"
| "next_valid (None # xs) = next_valid xs"

fun bfill :: "'a option list \<Rightarrow> 'a option list" where
  "bfill [] = []"
| "bfill (x # xs) = (case x of Some v \<Rightarrow> Some v | None \<Rightarrow> next_valid xs) # bfill xs"

definition replace0 :: "real \<Rightarrow> real option" where
  "replace0 x = (if x = 0 then None else Some x)"

text \<open>
  \<^verbatim>\<open>fillna(0)\<close> on the transformed column: the cell of a row without a group and a
  cell the back-fill left missing both become 0.
\<close>

definition fillna0 :: "real option option \<Rightarrow> real" where
  "fillna0 c = (case c of Some (Some v) \<Rightarrow> v | _ \<Rightarrow> 0)"

text \<open>Lines 80 to 86, on the table in the row order it has at that point.\<close>

definition backfill_meta :: "tabela \<Rightarrow> tabela" where
  "backfill_meta df =
     map2 (\<lambda>r c. r\<lparr>Meta_Mes := fillna0 c\<rparr>) df
       (transform (map chave df) (map (replace0 \<circ> Meta_Mes) df) bfill)"

text \<open>
  Line 89: \<^verbatim>\<open>sort_values(["Nome_Loja", "ano_mes", "Data"])\<close>, a stable sort with the
  nulls of each column last.
\<close>

definition na_ultimo :: "'a \<Rightarrow> 'a option \<Rightarrow> bool \<times> 'a" where
  "na_ultimo d x = (case x of None \<Rightarrow> (True, d) | Some v \<Rightarrow> (False, v))"

definition chave_ordem :: "linha \<Rightarrow> (bool \<times> string) \<times> (bool \<times> periodo) \<times> (bool \<times> carimbo)" where
  "chave_ordem r =
     (na_ultimo [] (Nome_Loja r), na_ultimo (0, 0) (ano_mes r), na_ultimo (0, 0, 0, 0) (Data r))"

definition ordena :: "tabela \<Rightarrow> tabela" where
  "ordena df = sort_key chave_ordem df"

text \<open>
  Lines 91 to 94: \<^verbatim>\<open>v = x - x.shift(1); v.iloc[0] = x.iloc[0]\<close>. The shift puts NaN
  in the first cell, the subtraction keeps it, and the assignment overwrites it with
  the first cell of \<^verbatim>\<open>x\<close>, NaN or not. The subtraction of two doubles is the
  double nearest to their difference, and NaN when either of them is NaN.
  \<^verbatim>\<open>transform\<close> never calls the function on an empty group.
\<close>

definition shift1 :: "real option list \<Rightarrow> real option list" where
  "shift1 x = (case x of [] \<Rightarrow> [] | _ # _ \<Rightarrow> None # butlast x)"

definition menos_nan :: "real option \<Rightarrow> real option \<Rightarrow> real option" where
  "menos_nan a b =
     (case a of
        None \<Rightarrow> None
      | Some u \<Rightarrow> (case b of None \<Rightarrow> None | Some v \<Rightarrow> Some (arred (u - v))))"

definition variacao :: "real option list \<Rightarrow> real option list" where
  "variacao x =
     (let v = map2 menos_nan x (shift1 x)
      in case x of [] \<Rightarrow> [] | x0 # _ \<Rightarrow> v[0 := x0])"

text \<open>Lines 96 to 99.\<close>

definition coluna_variacao :: "tabela \<Rightarrow> tabela" where
  "coluna_variacao df =
     map2 (\<lambda>r c. r\<lparr>Real_Variacao := (case c of Some v \<Rightarrow> v | None \<Rightarrow> None)\<rparr>) df
       (transform (map chave df) (map Real_col df) variacao)"

text \<open>
  Line 102: \<^verbatim>\<open>df["Meta Mes"] / df["DIAS"]\<close>. A NaN divisor gives NaN. A zero divisor
  would give an infinity or NaN, never a number, and no exception.
\<close>

definition coluna_meta_dia :: "tabela \<Rightarrow> tabela" where
  "coluna_meta_dia df =
     map (\<lambda>r. r\<lparr>Meta_Dia :=
            (case DIAS r of
               None \<Rightarrow> None
             | Some d \<Rightarrow> if d = 0 then None else Some (Meta_Mes r / real d))\<rparr>) df"

definition carregar_dados :: "tabela \<Rightarrow> tabela" where
  "carregar_dados df =
     coluna_meta_dia (coluna_variacao (ordena (backfill_meta (merge_dias df))))"

subsection \<open>The page script: filters and window (app.py, lines 157 to 175)\<close>

text \<open>
  The selections of the sidebar. The year and the month come from the values of the
  column \<^verbatim>\<open>Data\<close>, where a NaT row contributes NaN: \<open>None\<close> is a NaN selection.
\<close>

record selecao =
  produto_sel :: string
  regional_sel :: string
  coordenador_sel :: string
  loja_sel :: string
  ano_sel :: "int option"
  mes_sel :: "nat option"

text \<open>\<^verbatim>\<open>==\<close> on a column: a null cell, or a NaN on either side, compares unequal.\<close>

definition igual :: "'a option \<Rightarrow> 'a option \<Rightarrow> bool" where
  "igual a b = (case (a, b) of (Some x, Some y) \<Rightarrow> x = y | _ \<Rightarrow> False)"

definition ano :: "linha \<Rightarrow> int option" where
  "ano r = map_option (\<lambda>(a, m, d, t). a) (Data r)"

definition mes :: "linha \<Rightarrow> nat option" where
  "mes r = map_option (\<lambda>(a, m, d, t). m) (Data r)"

definition filtragem :: "selecao \<Rightarrow> tabela \<Rightarrow> tabela" where
  "filtragem s rede =
     (let df1 = (if produto_sel s \<noteq> ''Todos''
                 then filter (\<lambda>r. igual (Produto r) (Some (produto_sel s))) rede else rede);
          df2 = (if regional_sel s \<noteq> ''Todas''
                 then filter (\<lambda>r. igual (Regional r) (Some (regional_sel s))) df1 else df1);
          df3 = (if coordenador_sel s \<noteq> ''Todos''
                 then filter (\<lambda>r. igual (Coordenador r) (Some (coordenador_sel s))) df2 else df2);
          df4 = (if loja_sel s \<noteq> ''Todas''
                 then filter (\<lambda>r. igual (Nome_Loja r) (Some (loja_sel s))) df3 else df3)
      in filter (\<lambda>r. igual (ano r) (ano_sel s) \<and> igual (mes r) (mes_sel s)) df4)"

subsection \<open>The aggregation (app.py, lines 180 to 192)\<close>

text \<open>One row of \<^verbatim>\<open>df_grouped\<close>; the suffix \<open>_g\<close> tells its columns from the ledger's.\<close>

record linha_g =
  Data_g :: carimbo
  Real_Variacao_g :: real
  Meta_Dia_g :: real
  REAL_ACUM :: real
  META_ACUM :: real
  DESVIO_DIA :: real
  DESVIO_ACUM :: real

text \<open>The aggregation \<^verbatim>\<open>"sum"\<close>: NaN cells are skipped, and an empty sum is 0.\<close>

definition soma :: "real option list \<Rightarrow> real" where
  "soma xs = sum_list (map (\<lambda>c. case c of None \<Rightarrow> 0 | Some v \<Rightarrow> v) xs)"

text \<open>\<^verbatim>\<open>Series.cumsum()\<close> on a column without NaN.\<close>

fun cumsum_de :: "real \<Rightarrow> real list \<Rightarrow> real list" where
  "cumsum_de a [] = []"
| "cumsum_de a (x # xs) = (a + x) # cumsum_de (a + x) xs"

definition cumsum :: "real list \<Rightarrow> real list" where
  "cumsum xs = cumsum_de 0 xs"

text \<open>
  Lines 180 to 187: \<^verbatim>\<open>groupby("Data", as_index=False).agg(...)\<close> makes one row per
  date present, in increasing order of the date (a null key is dropped), and
  \<^verbatim>\<open>sort_values("Data")\<close> sorts them again.
\<close>

definition agrupa_por_data :: "tabela \<Rightarrow> (carimbo \<times> real \<times> real) list" where
  "agrupa_por_data df_f =
     sort_key fst
       (map (\<lambda>d. (d, soma (map Real_Variacao (filter (\<lambda>r. Data r = Some d) df_f)),
                     soma (map Meta_Dia (filter (\<lambda>r. Data r = Some d) df_f))))
          (sort (remdups (List.map_filter Data df_f))))"

text \<open>Lines 189 to 192: the four derived columns.\<close>

definition df_grouped :: "tabela \<Rightarrow> linha_g list" where
  "df_grouped df_f =
     (let g = agrupa_por_data df_f;
          real_acum = cumsum (map (\<lambda>(d, v, m). v) g);
          meta_acum = cumsum (map (\<lambda>(d, v, m). m) g)
      in map (\<lambda>((d, v, m), ra, ma).
                \<lparr>Data_g = d, Real_Variacao_g = v, Meta_Dia_g = m, REAL_ACUM = ra,
                 META_ACUM = ma, DESVIO_DIA = v - m, DESVIO_ACUM = ra - ma\<rparr>)
           (zip g (zip real_acum meta_acum)))"

text \<open>
  The script from the filters on, as the list of the steps it runs and the table it
  shows. On an empty selection it warns and stops (\<^verbatim>\<open>st.warning\<close>, \<^verbatim>\<open>st.stop()\<close>,
  lines 173 to 175); otherwise it aggregates, draws the chart, formats the table
  and offers the export.
\<close>

datatype passo = Aviso_Sem_Dados | Parada | Agregacao | Grafico | Formatacao | Exportacao

definition pagina :: "selecao \<Rightarrow> tabela \<Rightarrow> passo list \<times> linha_g list option" where
  "pagina s rede =
     (let df_f = filtragem s rede
      in if df_f = [] then ([Aviso_Sem_Dados, Parada], None)
         else ([Agregacao, Grafico, Formatacao, Exportacao], Some (df_grouped df_f)))"

subsection \<open>Derived notions used in the statements\<close>

text \<open>
  What lines 80 to 86 do to the targets of one group, listed in the row order of the
  table: zero becomes missing, \<^verbatim>\<open>bfill\<close>, and what is still missing becomes 0.
\<close>

definition preenche :: "real list \<Rightarrow> real list" where
  "preenche ms = map (\<lambda>c. fillna0 (Some c)) (bfill (map replace0 ms))"

text \<open>The calendar day of a row, and the number of distinct days of a group.\<close>

definition dia :: "linha \<Rightarrow> (int \<times> nat \<times> nat) option" where
  "dia r = map_option (\<lambda>(a, m, d, t). (a, m, d)) (Data r)"

definition dias_distintos :: "string \<times> periodo \<Rightarrow> tabela \<Rightarrow> nat" where
  "dias_distintos k df = length (remdups (map dia (grupo k df)))"



text \<open>The rows of one group as they stand after the sort of line 89.\<close>

definition etapa_ordenada :: "string \<times> periodo \<Rightarrow> tabela \<Rightarrow> tabela" where
  "etapa_ordenada k df = grupo k (ordena (backfill_meta (merge_dias df)))"

subsection \<open>Example tables\<close>

text \<open>
  A raw row of store \<open>l\<close> on day \<open>d\<close> of January 2024 with the readings \<open>re\<close>
  (\<^verbatim>\<open>Real\<close>) and \<open>me\<close> (the monthly target).
\<close>

definition lancamento :: "string \<Rightarrow> nat \<Rightarrow> real \<Rightarrow> real \<Rightarrow> linha" where
  "lancamento l d re me =
     \<lparr>Nome_Loja = Some l, Produto = Some ''CONSIGNADO'', Regional = Some ''SUL'',
      Coordenador = Some ''ANA'', Data = Some (2024, 1, d, 0), Real_col = Some re, Meta_Mes = me,
      DIAS = None, Real_Variacao = None, Meta_Dia = None\<rparr>"

text \<open>The end-to-end scenario of the specification: two stores, two days.\<close>

definition cenario :: tabela where
  "cenario =
     [lancamento ''A'' 1 100 0, lancamento ''B'' 1 50 0,
      lancamento ''A'' 2 300 600, lancamento ''B'' 2 50 200]"

text \<open>One group stored with the later day first.\<close>

definition fora_de_ordem :: tabela where
  "fora_de_ordem = [lancamento ''A'' 2 250 0, lancamento ''A'' 1 100 500]"

text \<open>One group, in date order, with its only target on the first day.\<close>

definition meta_no_inicio :: tabela where
  "meta_no_inicio = [lancamento ''A'' 1 100 500, lancamento ''A'' 2 250 0]"

text \<open>Two rows of one store on the same day (two products).\<close>

definition mesmo_dia :: tabela where
  "mesmo_dia =
     [lancamento ''A'' 1 100 600,
      (lancamento ''A'' 1 40 600)\<lparr>Produto := Some ''CARTAO''\<rparr>]"

text \<open>A row whose date did not parse, next to a row of the same store that did.\<close>

definition sem_data :: tabela where
  "sem_data = [(lancamento ''A'' 1 100 500)\<lparr>Data := None\<rparr>, lancamento ''A'' 2 250 500]"



definition janeiro :: selecao where
  "janeiro =
     \<lparr>produto_sel = ''Todos'', regional_sel = ''Todas'', coordenador_sel = ''Todos'',
      loja_sel = ''Todas'', ano_sel = Some 2024, mes_sel = Some 1\<rparr>"

text \<open>What the filters and the window of lines 159 to 171 ask of one row.\<close>

definition criterio :: "selecao \<Rightarrow> linha \<Rightarrow> bool" where
  "criterio s r =
     ((produto_sel s = ''Todos'' \<or> igual (Produto r) (Some (produto_sel s))) \<and>
      (regional_sel s = ''Todas'' \<or> igual (Regional r) (Some (regional_sel s))) \<and>
      (coordenador_sel s = ''Todos'' \<or> igual (Coordenador r) (Some (coordenador_sel s))) \<and>
      (loja_sel s = ''Todas'' \<or> igual (Nome_Loja r) (Some (loja_sel s))) \<and>
      igual (ano r) (ano_sel s) \<and> igual (mes r) (mes_sel s))"

section \<open>The currency parser\<close>

text \<open>The recursive scan removes exactly the dots the position rule calls separators.\<close>

lemma separador_milhar_Suc: "separador_milhar (c # cs) (Suc i) = separador_milhar cs i"
  by (simp add: separador_milhar_def add.commute)

lemma separador_milhar_0: "separador_milhar (c # cs) 0 = (c = CHR ''.'' \<and> milhar_adiante cs)"
proof (cases cs)
  case Nil then show ?thesis by (simp add: separador_milhar_def)
next
  case (Cons a as1)
  show ?thesis
  proof (cases as1)
    case Nil with Cons show ?thesis by (simp add: separador_milhar_def)
  next
    case (Cons b as2)
    note c2 = this
    show ?thesis
    proof (cases as2)
      case Nil with c2 \<open>cs = a # as1\<close> show ?thesis by (simp add: separador_milhar_def)
    next
      case (Cons c3 as3)
      note c3 = this
      show ?thesis
      proof (cases as3)
        case Nil with c3 c2 \<open>cs = a # as1\<close> show ?thesis by (simp add: separador_milhar_def)
      next
        case (Cons d as4)
        with c3 c2 \<open>cs = a # as1\<close> show ?thesis by (auto simp add: separador_milhar_def)
      qed
    qed
  qed
qed

lemma sem_separadores_Cons:
  "sem_separadores (c # cs) =
     (if c = CHR ''.'' \<and> milhar_adiante cs then [] else [c]) @ sem_separadores cs"
proof -
  have u: "[0..<length (c # cs)] = 0 # map Suc [0..<length cs]"
    by (simp add: upt_conv_Cons map_Suc_upt del: upt_Suc)
  show ?thesis
    unfolding sem_separadores_def u
    by (simp add: filter_map o_def separador_milhar_Suc separador_milhar_0 del: upt_Suc)
qed

lemma sub_milhar_sem_separadores: "sub_milhar s = sem_separadores s"
proof (induction s)
  case Nil show ?case by (simp add: sem_separadores_def)
next
  case (Cons c cs) then show ?case by (simp add: sem_separadores_Cons)
qed

lemma limpar_moeda_str:
  "strip s \<noteq> [] \<Longrightarrow> strip s \<noteq> ''-'' \<Longrightarrow>
   limpar_moeda (PStr s) =
     Inr (case py_float (virgula_para_ponto (sub_milhar
            (strip (remove2 (CHR ''r'') (CHR ''$'') (remove2 (CHR ''R'') (CHR ''$'') (strip s)))))) of
            Inr f \<Rightarrow> f | Inl e \<Rightarrow> Finite 0)"
  by (simp add: limpar_moeda_def isna_def Let_def split: sum.splits)

lemmas avalia_double = arred_def expoente_def par_def pot2_def Let_def

lemmas avalia_moeda =
  limpar_moeda_def isna_def strip_def is_space_def py_float_def strip_float_def
  is_space_float_def split_sign_def parse_decimal_def parse_exponent_def scale10_def
  digits_val_def digit_val_def is_digit_def virgula_para_ponto_def lower_def f64_def
  float_de_int_def limite_def

text \<open>The exceptions that escape, and the cells on which they do.\<close>

lemma limpar_moeda_OverflowError:
  "(limpar_moeda v = Inl OverflowError) = (\<exists>n. v = PInt n \<and> limite \<le> \<bar>of_int n\<bar>)"
  by (cases v) (auto simp: limpar_moeda_def isna_def float_de_int_def Let_def split: sum.splits)

lemma limpar_moeda_ValueError:
  "(limpar_moeda v = Inl ValueError) = (\<exists>a b cs. v = PLista a b cs)"
  by (cases v) (auto simp: limpar_moeda_def isna_def float_de_int_def Let_def split: sum.splits)

text \<open>
  What the parser returns where it returns: an int as the nearest double, a float as
  it is, 0.0 for a missing cell, for an empty text and for a lone hyphen, and for any
  other text the value of \<^verbatim>\<open>float\<close> on the text without currency marker and
  separators, or 0.0 when \<^verbatim>\<open>float\<close> rejects it.
\<close>

lemma limpar_moeda_retorno:
  "\<bar>of_int n\<bar> < limite \<Longrightarrow> limpar_moeda (PInt n) = Inr (Finite (arred (of_int n)))"
  "x \<noteq> NaN \<Longrightarrow> limpar_moeda (PFloat x) = Inr x"
  "limpar_moeda PNone = Inr (Finite 0)"
  "limpar_moeda (PFloat NaN) = Inr (Finite 0)"
  "limpar_moeda (PBool b) = Inr (Finite (if b then 1 else 0))"
  "limpar_moeda PObj = Inr (Finite 0)"
  "strip s1 = [] \<or> strip s1 = ''-'' \<Longrightarrow> limpar_moeda (PStr s1) = Inr (Finite 0)"
  "strip s2 \<noteq> [] \<Longrightarrow> strip s2 \<noteq> ''-'' \<Longrightarrow>
   limpar_moeda (PStr s2) =
     Inr (case py_float (virgula_para_ponto (sem_separadores
            (strip (remove2 (CHR ''r'') (CHR ''$'')
               (remove2 (CHR ''R'') (CHR ''$'') (strip s2)))))) of
            Inr f \<Rightarrow> f
          | Inl e \<Rightarrow> Finite 0)"
  using limpar_moeda_str [of s2]
  by (auto simp: limpar_moeda_def isna_def float_de_int_def Let_def sub_milhar_sem_separadores)

lemma limpar_moeda_exemplos:
  "limpar_moeda (PStr ''R$ 1.234,56'') = Inr (Finite (arred 1234.56))"
  "arred 1234.56 = 2714826150374277 / 2199023255552"
  "limpar_moeda (PStr []) = Inr (Finite 0)"
  "limpar_moeda (PStr ''-'') = Inr (Finite 0)"
  "limpar_moeda (PStr '' - '') = Inr (Finite 0)"
  "limpar_moeda (PInt 10) = Inr (Finite 10)"
  "limpar_moeda (PInt (2 ^ 53 + 1)) = Inr (Finite (2 ^ 53))"
  "limpar_moeda (PStr ''r$ 7,5'') = Inr (Finite 7.5)"
  "limpar_moeda (PStr ''-5,5'') = Inr (Finite (- 5.5))"
  "limpar_moeda (PStr ''+3'') = Inr (Finite 3)"
  "limpar_moeda (PStr ''1e3'') = Inr (Finite 1000)"
  "limpar_moeda (PStr ''1_0'') = Inr (Finite 10)"
  "limpar_moeda (PStr ''0,1'') = Inr (Finite (3602879701896397 / 36028797018963968))"
  "limpar_moeda (PStr ''abc'') = Inr (Finite 0)"
  "limpar_moeda (PStr ''1.234.567,89'') = Inr (Finite 0)"
  "limpar_moeda (PStr ''-inf'') = Inr NegInf"
  "limpar_moeda (PStr ''nan'') = Inr NaN"
  "limpar_moeda (PStr ''1e309'') = Inr PosInf"
  by (simp_all add: avalia_moeda avalia_double)

text \<open>
  Claim C5. The parser is not total: two kinds of cell make it raise. An int of
  magnitude \<open>2 ^ 1024 - 2 ^ 970\<close> or more raises \<^verbatim>\<open>OverflowError\<close> in \<^verbatim>\<open>float(valor)\<close>
  on line 29, which stands outside the \<^verbatim>\<open>try\<close>; a list-like cell of two or more
  elements raises \<^verbatim>\<open>ValueError\<close> in the test \<^verbatim>\<open>if pd.isna(valor)\<close> of line 26. Among
  the cell values of \<open>pyval\<close> these are the only ones on which an exception escapes:
  on every other one a float is returned. \<^verbatim>\<open>limpar_moeda(10 ** 309)\<close> raises, while the
  text \<^verbatim>\<open>"1e309"\<close> gives the infinity that \<^verbatim>\<open>float\<close> makes of it.
\<close>

theorem limpar_moeda_levanta_excecao:
  "(limpar_moeda v = Inl OverflowError) = (\<exists>n. v = PInt n \<and> limite \<le> \<bar>of_int n\<bar>) \<and>
   (limpar_moeda v = Inl ValueError) = (\<exists>a b cs. v = PLista a b cs) \<and>
   ((\<exists>f. limpar_moeda v = Inr f) =
      (\<not> (\<exists>n. v = PInt n \<and> limite \<le> \<bar>of_int n\<bar>) \<and> \<not> (\<exists>a b cs. v = PLista a b cs))) \<and>
   limpar_moeda (PInt (10 ^ 309)) = Inl OverflowError \<and>
   limpar_moeda (PInt (2 ^ 1024 - 2 ^ 970)) = Inl OverflowError \<and>
   limpar_moeda (PInt (- (2 ^ 1024))) = Inl OverflowError \<and>
   limpar_moeda (PLista (PInt 1) (PInt 2) []) = Inl ValueError \<and>
   limpar_moeda (PStr ''1e309'') = Inr PosInf"
proof -
  have r: "(\<exists>f. limpar_moeda v = Inr f) =
      (\<not> (\<exists>n. v = PInt n \<and> limite \<le> \<bar>of_int n\<bar>) \<and> \<not> (\<exists>a b cs. v = PLista a b cs))"
  proof -
    have "(\<exists>f. limpar_moeda v = Inr f) =
        (limpar_moeda v \<noteq> Inl OverflowError \<and> limpar_moeda v \<noteq> Inl ValueError)"
    proof (cases "limpar_moeda v")
      case (Inl e) then show ?thesis by (cases e) simp_all
    next
      case (Inr f) then show ?thesis by simp
    qed
    then show ?thesis
      by (simp only: limpar_moeda_OverflowError limpar_moeda_ValueError)
  qed
  have e: "limpar_moeda (PInt (10 ^ 309)) = Inl OverflowError"
    "limpar_moeda (PInt (2 ^ 1024 - 2 ^ 970)) = Inl OverflowError"
    "limpar_moeda (PInt (- (2 ^ 1024))) = Inl OverflowError"
    by (simp_all add: limpar_moeda_def isna_def float_de_int_def limite_def)
  have l: "limpar_moeda (PLista (PInt 1) (PInt 2) []) = Inl ValueError"
    by (simp add: limpar_moeda_def)
  have i: "limpar_moeda (PStr ''1e309'') = Inr PosInf"
    by (simp add: avalia_moeda)
  from limpar_moeda_OverflowError [of v] limpar_moeda_ValueError [of v] r e l i
  show ?thesis by (intro conjI)
qed

section \<open>The loader\<close>

subsection \<open>Group-wise transformation\<close>

text \<open>
  The rows of one group receive, in row order, the outputs of the function applied to
  the values of the group.
\<close>

lemma length_distribui [simp]: "length (distribui outs ks) = length ks"
proof (induction ks arbitrary: outs)
  case Nil
  show ?case by simp
next
  case (Cons c ks)
  show ?case
  proof (cases c)
    case None
    with Cons show ?thesis by simp
  next
    case (Some k')
    with Cons show ?thesis by (cases "outs k'") simp_all
  qed
qed

lemma distribui_grupo:
  "length (filter (\<lambda>c. c = Some k) ks) \<le> length (outs k) \<Longrightarrow>
   map snd (filter (\<lambda>p. fst p = Some k) (zip ks (distribui outs ks))) =
     map Some (take (length (filter (\<lambda>c. c = Some k) ks)) (outs k))"
proof (induction ks arbitrary: outs)
  case Nil
  show ?case by simp
next
  case (Cons c ks)
  show ?case
  proof (cases c)
    case None
    with Cons show ?thesis by simp
  next
    case (Some k')
    show ?thesis
    proof (cases "outs k'")
      case Nil
      with Cons Some show ?thesis by (cases "k' = k") auto
    next
      case (Cons w ws)
      note ow = this
      show ?thesis
      proof (cases "k' = k")
        case True
        let ?o = "outs(k := ws)"
        have step: "distribui outs (c # ks) = Some w # distribui ?o ks"
          using Some True ow by simp
        have le: "length (filter (\<lambda>c. c = Some k) ks) \<le> length (?o k)"
          using Cons.prems ow Some True by simp
        have ih: "map snd (filter (\<lambda>p. fst p = Some k) (zip ks (distribui ?o ks))) =
            map Some (take (length (filter (\<lambda>c. c = Some k) ks)) (?o k))"
          by (rule Cons.IH [of ?o, OF le])
        have "map snd (filter (\<lambda>p. fst p = Some k) (zip (c # ks) (distribui outs (c # ks)))) =
            Some w # map snd (filter (\<lambda>p. fst p = Some k) (zip ks (distribui ?o ks)))"
          unfolding step using Some True by simp
        also have "\<dots> = Some w # map Some (take (length (filter (\<lambda>c. c = Some k) ks)) ws)"
          unfolding ih by simp
        also have "\<dots> = map Some (take (length (filter (\<lambda>c. c = Some k) (c # ks))) (outs k))"
          using Some True ow by simp
        finally show ?thesis .
      next
        case False
        let ?o = "outs(k' := ws)"
        have step: "distribui outs (c # ks) = Some w # distribui ?o ks"
          using Some ow by simp
        have ok: "?o k = outs k"
          using False by simp
        have le: "length (filter (\<lambda>c. c = Some k) ks) \<le> length (?o k)"
          using Cons.prems Some False by simp
        have ih: "map snd (filter (\<lambda>p. fst p = Some k) (zip ks (distribui ?o ks))) =
            map Some (take (length (filter (\<lambda>c. c = Some k) ks)) (?o k))"
          by (rule Cons.IH [of ?o, OF le])
        have "map snd (filter (\<lambda>p. fst p = Some k) (zip (c # ks) (distribui outs (c # ks)))) =
            map snd (filter (\<lambda>p. fst p = Some k) (zip ks (distribui ?o ks)))"
          unfolding step using Some False by simp
        also have "\<dots> = map Some (take (length (filter (\<lambda>c. c = Some k) ks)) (outs k))"
          unfolding ih ok by simp
        also have "\<dots> = map Some (take (length (filter (\<lambda>c. c = Some k) (c # ks))) (outs k))"
          using Some False by simp
        finally show ?thesis .
      qed
    qed
  qed
qed

lemma filter_zip_fst_length:
  "length ys = length xs \<Longrightarrow>
   length (filter (\<lambda>p. P (fst p)) (zip xs ys)) = length (filter P xs)"
  by (induction xs ys rule: list_induct2') auto

lemma transform_grupo:
  assumes "length col = length ks"
    and "\<And>xs. length (f xs) = length xs"
  shows "map snd (filter (\<lambda>p. fst p = Some k) (zip ks (transform ks col f))) =
     map Some (f (map snd (filter (\<lambda>p. fst p = Some k) (zip ks col))))"
proof -
  let ?v = "map snd (filter (\<lambda>p. fst p = Some k) (zip ks col))"
  have n: "length (filter (\<lambda>c. c = Some k) ks) = length (f ?v)"
    using filter_zip_fst_length [of col ks "\<lambda>c. c = Some k"] assms by simp
  show ?thesis
    unfolding transform_def
    using distribui_grupo [of k ks "\<lambda>k. f (map snd (filter (\<lambda>p. fst p = Some k) (zip ks col)))"] n
    by simp
qed

lemma coluna_do_grupo:
  "map snd (filter (\<lambda>p. fst p = Some k) (zip (map chave df) (map val df))) = map val (grupo k df)"
  by (induction df) (auto simp: grupo_def)

lemma grupo_map2:
  assumes "length cs = length df" and "\<And>r c. chave (g r c) = chave r"
  shows "grupo k (map2 g df cs) =
     map2 g (grupo k df) (map snd (filter (\<lambda>p. fst p = Some k) (zip (map chave df) cs)))"
  using assms(1)
proof (induction cs df rule: list_induct2)
  case Nil
  then show ?case by (simp add: grupo_def)
next
  case (Cons c cs r df)
  then show ?case by (simp add: grupo_def assms(2))
qed

lemma insort_key_map: "insort_key K (h z) (map h ys) = map h (insort_key (\<lambda>a. K (h a)) z ys)"
  by (induction ys) auto

lemma sort_key_map: "sort_key K (map h zs) = map h (sort_key (\<lambda>a. K (h a)) zs)"
  by (induction zs) (simp_all add: insort_key_map)

subsection \<open>The stages of the loader, seen on one group\<close>

lemma chave_update [simp]:
  "chave (r\<lparr>DIAS := a\<rparr>) = chave r"
  "chave (r\<lparr>Meta_Mes := b\<rparr>) = chave r"
  "chave (r\<lparr>Real_Variacao := c\<rparr>) = chave r"
  "chave (r\<lparr>Meta_Dia := d\<rparr>) = chave r"
  by (simp_all add: chave_def ano_mes_def)

lemma chave_ordem_update [simp]:
  "chave_ordem (r\<lparr>DIAS := a\<rparr>) = chave_ordem r"
  "chave_ordem (r\<lparr>Meta_Mes := b\<rparr>) = chave_ordem r"
  "chave_ordem (r\<lparr>Real_Variacao := c\<rparr>) = chave_ordem r"
  "chave_ordem (r\<lparr>Meta_Dia := d\<rparr>) = chave_ordem r"
  by (simp_all add: chave_ordem_def ano_mes_def)

lemma set_map_filter_Some: "set (List.map_filter f xs) = {y. \<exists>x\<in>set xs. f x = Some y}"
proof (induction xs)
  case Nil
  show ?case by simp
next
  case (Cons x xs)
  then show ?case by (cases "f x") auto
qed

lemma set_map_filter_chave: "set (List.map_filter chave df) = {k. \<exists>r\<in>set df. chave r = Some k}"
  by (rule set_map_filter_Some)

lemma grupo_vazio: "(grupo k df = []) = (\<forall>r\<in>set df. chave r \<noteq> Some k)"
  by (auto simp: grupo_def filter_empty_conv)

lemma map_of_dias:
  "map_of (dias df) k = (if grupo k df = [] then None else Some (length (grupo k df)))"
proof -
  have "map_of (dias df) k =
      ((Some \<circ> (\<lambda>k. length (grupo k df))) |` set (sort (remdups (List.map_filter chave df)))) k"
    unfolding dias_def by (simp only: map_of_map_restrict)
  then show ?thesis
    by (auto simp: restrict_map_def set_map_filter_chave grupo_vazio)
qed

lemma grupo_merge_dias:
  "grupo k (merge_dias df) = map (\<lambda>r. r\<lparr>DIAS := Some (length (grupo k df))\<rparr>) (grupo k df)"
proof -
  have "grupo k (merge_dias df) =
      map (\<lambda>r. r\<lparr>DIAS := (case chave r of None \<Rightarrow> None | Some k \<Rightarrow> map_of (dias df) k)\<rparr>)
        (grupo k df)"
    by (simp add: merge_dias_def grupo_def filter_map o_def)
  also have "\<dots> = map (\<lambda>r. r\<lparr>DIAS := Some (length (grupo k df))\<rparr>) (grupo k df)"
  proof (rule map_cong [OF refl])
    fix r assume "r \<in> set (grupo k df)"
    then have c: "chave r = Some k" and ne: "grupo k df \<noteq> []"
      by (auto simp: grupo_def filter_empty_conv)
    then show "r\<lparr>DIAS := (case chave r of None \<Rightarrow> None | Some k \<Rightarrow> map_of (dias df) k)\<rparr> =
        r\<lparr>DIAS := Some (length (grupo k df))\<rparr>"
      by (simp add: map_of_dias)
  qed
  finally show ?thesis .
qed

lemma length_bfill [simp]: "length (bfill xs) = length xs"
  by (induction xs) auto

lemma length_preenche [simp]: "length (preenche ms) = length ms"
  by (simp add: preenche_def)

lemma grupo_backfill_meta:
  "grupo k (backfill_meta df) =
     map2 (\<lambda>r m. r\<lparr>Meta_Mes := m\<rparr>) (grupo k df) (preenche (map Meta_Mes (grupo k df)))"
proof -
  let ?t = "transform (map chave df) (map (replace0 \<circ> Meta_Mes) df) bfill"
  have len: "length ?t = length df"
    by (simp add: transform_def)
  have "grupo k (backfill_meta df) =
      map2 (\<lambda>r c. r\<lparr>Meta_Mes := fillna0 c\<rparr>) (grupo k df)
        (map snd (filter (\<lambda>p. fst p = Some k) (zip (map chave df) ?t)))"
    unfolding backfill_meta_def by (rule grupo_map2 [OF len]) simp
  also have "map snd (filter (\<lambda>p. fst p = Some k) (zip (map chave df) ?t)) =
      map Some (bfill (map (replace0 \<circ> Meta_Mes) (grupo k df)))"
    using transform_grupo [of "map (replace0 \<circ> Meta_Mes) df" "map chave df" bfill k]
    by (simp add: coluna_do_grupo)
  finally show ?thesis
    by (simp add: preenche_def zip_map2 o_def map_zip_map2 case_prod_unfold)
qed

lemma grupo_ordena: "grupo k (ordena df) = sort_key chave_ordem (grupo k df)"
  by (simp add: grupo_def ordena_def filter_sort)

lemma length_variacao [simp]: "length (variacao x) = length x"
  by (cases x) (simp_all add: variacao_def shift1_def)

lemma grupo_coluna_variacao:
  "grupo k (coluna_variacao df) =
     map2 (\<lambda>r v. r\<lparr>Real_Variacao := v\<rparr>) (grupo k df) (variacao (map Real_col (grupo k df)))"
proof -
  let ?t = "transform (map chave df) (map Real_col df) variacao"
  have len: "length ?t = length df"
    by (simp add: transform_def)
  have "grupo k (coluna_variacao df) =
      map2 (\<lambda>r c. r\<lparr>Real_Variacao := (case c of Some v \<Rightarrow> v | None \<Rightarrow> None)\<rparr>) (grupo k df)
        (map snd (filter (\<lambda>p. fst p = Some k) (zip (map chave df) ?t)))"
    unfolding coluna_variacao_def by (rule grupo_map2 [OF len]) simp
  also have "map snd (filter (\<lambda>p. fst p = Some k) (zip (map chave df) ?t)) =
      map Some (variacao (map Real_col (grupo k df)))"
    using transform_grupo [of "map Real_col df" "map chave df" variacao k]
    by (simp add: coluna_do_grupo)
  finally show ?thesis
    by (simp add: zip_map2 o_def case_prod_unfold)
qed

lemma grupo_coluna_meta_dia:
  "grupo k (coluna_meta_dia df) =
     map (\<lambda>r. r\<lparr>Meta_Dia :=
            (case DIAS r of
               None \<Rightarrow> None
             | Some d \<Rightarrow> if d = 0 then None else Some (Meta_Mes r / real d))\<rparr>) (grupo k df)"
  by (simp add: coluna_meta_dia_def grupo_def filter_map o_def)

subsection \<open>One group of the loaded table\<close>

lemma map_map2_fst:
  "length ys = length xs \<Longrightarrow> (\<And>x y. f (g x y) = f x) \<Longrightarrow> map f (map2 g xs ys) = map f xs"
  by (induction ys xs rule: list_induct2) auto

lemma map_map2_snd:
  "length ys = length xs \<Longrightarrow> (\<And>x y. f (g x y) = y) \<Longrightarrow> map f (map2 g xs ys) = ys"
  by (induction ys xs rule: list_induct2) auto

lemma grupo_carregar_dados:
  "grupo k (carregar_dados df) =
     map (\<lambda>r. r\<lparr>Meta_Dia :=
            (case DIAS r of
               None \<Rightarrow> None
             | Some d \<Rightarrow> if d = 0 then None else Some (Meta_Mes r / real d))\<rparr>)
       (map2 (\<lambda>r v. r\<lparr>Real_Variacao := v\<rparr>) (etapa_ordenada k df)
          (variacao (map Real_col (etapa_ordenada k df))))"
  by (simp add: carregar_dados_def grupo_coluna_meta_dia grupo_coluna_variacao etapa_ordenada_def)

lemma etapa_ordenada_eq:
  "etapa_ordenada k df =
     sort_key chave_ordem
       (map2 (\<lambda>r m. r\<lparr>Meta_Mes := m\<rparr>)
          (map (\<lambda>r. r\<lparr>DIAS := Some (length (grupo k df))\<rparr>) (grupo k df))
          (preenche (map Meta_Mes (grupo k df))))"
  by (simp add: etapa_ordenada_def grupo_ordena grupo_backfill_meta grupo_merge_dias o_def)

lemma coluna_etapa_ordenada:
  assumes "\<And>r a. f (r\<lparr>DIAS := a\<rparr>) = f r" and "\<And>r b. f (r\<lparr>Meta_Mes := b\<rparr>) = f r"
  shows "map f (etapa_ordenada k df) = map f (sort_key chave_ordem (grupo k df))"
proof -
  let ?D = "map (\<lambda>r. r\<lparr>DIAS := Some (length (grupo k df))\<rparr>) (grupo k df)"
  let ?ms = "preenche (map Meta_Mes (grupo k df))"
  let ?h = "\<lambda>p. (fst p)\<lparr>Meta_Mes := snd p\<rparr>"
  have B: "map2 (\<lambda>r m. r\<lparr>Meta_Mes := m\<rparr>) ?D ?ms = map ?h (zip ?D ?ms)"
    by (simp add: case_prod_unfold)
  have "map f (etapa_ordenada k df) = map f (map ?h (sort_key (\<lambda>a. chave_ordem (?h a)) (zip ?D ?ms)))"
    unfolding etapa_ordenada_eq B by (simp only: sort_key_map)
  also have "\<dots> = map f (map fst (sort_key (\<lambda>a. chave_ordem (fst a)) (zip ?D ?ms)))"
    by (simp add: assms o_def)
  also have "map fst (sort_key (\<lambda>a. chave_ordem (fst a)) (zip ?D ?ms)) =
      sort_key chave_ordem (map fst (zip ?D ?ms))"
    by (simp only: sort_key_map)
  also have "map fst (zip ?D ?ms) = ?D"
    by simp
  also have "sort_key chave_ordem ?D =
      map (\<lambda>r. r\<lparr>DIAS := Some (length (grupo k df))\<rparr>) (sort_key chave_ordem (grupo k df))"
    by (simp add: sort_key_map)
  finally show ?thesis
    by (simp add: assms o_def)
qed

lemma length_etapa_ordenada [simp]: "length (etapa_ordenada k df) = length (grupo k df)"
  by (simp add: etapa_ordenada_eq)

lemma coluna_carregar_dados:
  assumes "\<And>r a. f (r\<lparr>DIAS := a\<rparr>) = f r" and "\<And>r b. f (r\<lparr>Meta_Mes := b\<rparr>) = f r"
    and "\<And>r c. f (r\<lparr>Real_Variacao := c\<rparr>) = f r" and "\<And>r d. f (r\<lparr>Meta_Dia := d\<rparr>) = f r"
  shows "map f (grupo k (carregar_dados df)) = map f (sort_key chave_ordem (grupo k df))"
proof -
  have "map f (grupo k (carregar_dados df)) =
      map f (map2 (\<lambda>r v. r\<lparr>Real_Variacao := v\<rparr>) (etapa_ordenada k df)
          (variacao (map Real_col (etapa_ordenada k df))))"
    by (simp add: grupo_carregar_dados o_def assms(4))
  also have "\<dots> = map f (etapa_ordenada k df)"
    by (rule map_map2_fst) (simp_all add: assms(3))
  finally show ?thesis
    by (simp add: coluna_etapa_ordenada [OF assms(1,2)])
qed

lemma variacao_carregar_dados:
  "map Real_Variacao (grupo k (carregar_dados df)) =
     variacao (map Real_col (grupo k (carregar_dados df)))"
proof -
  let ?S = "etapa_ordenada k df"
  let ?V = "map2 (\<lambda>r v. r\<lparr>Real_Variacao := v\<rparr>) ?S (variacao (map Real_col ?S))"
  have a: "map Real_Variacao (grupo k (carregar_dados df)) = map Real_Variacao ?V"
    by (simp add: grupo_carregar_dados o_def)
  have b: "map Real_Variacao ?V = variacao (map Real_col ?S)"
    by (rule map_map2_snd) simp_all
  have c: "map Real_col (grupo k (carregar_dados df)) = map Real_col ?V"
    by (simp add: grupo_carregar_dados o_def)
  have d: "map Real_col ?V = map Real_col ?S"
    by (rule map_map2_fst) simp_all
  from a b c d show ?thesis by simp
qed

lemma length_grupo_carregar_dados [simp]:
  "length (grupo k (carregar_dados df)) = length (grupo k df)"
  using coluna_carregar_dados [of "\<lambda>r. ()" k df] by (simp add: grupo_carregar_dados)

subsection \<open>The daily delta\<close>

lemma zip_butlast_Cons: "zip xs (butlast (x # xs)) = zip xs (x # xs)"
  by (induction xs arbitrary: x) auto

lemma variacao_Cons: "variacao (x # xs) = x # map2 menos_nan xs (x # xs)"
  unfolding variacao_def shift1_def Let_def
  by (simp add: zip_butlast_Cons del: butlast.simps)

lemma variacao_primeiro: "x \<noteq> [] \<Longrightarrow> variacao x ! 0 = x ! 0"
  by (cases x) (simp_all add: variacao_Cons)

lemma variacao_seguinte:
  "0 < i \<Longrightarrow> i < length x \<Longrightarrow> variacao x ! i = menos_nan (x ! i) (x ! (i - 1))"
proof (cases x)
  case Nil
  assume "i < length x" with Nil show ?thesis by simp
next
  case (Cons a as)
  assume "0 < i" "i < length x"
  then obtain j where j: "i = Suc j" "j < length as"
    using Cons by (cases i) auto
  then show ?thesis
    using Cons by (simp add: variacao_Cons)
qed






subsection \<open>Date order inside a group\<close>

lemma chave_Some:
  "chave r = Some (l, p) \<Longrightarrow>
   \<exists>d. Nome_Loja r = Some l \<and> ano_mes r = Some p \<and> Data r = Some d \<and>
       chave_ordem r = ((False, l), (False, p), (False, d))"
  by (auto simp: chave_def chave_ordem_def na_ultimo_def ano_mes_def split: option.splits)

lemma ordem_no_grupo:
  assumes "chave x = Some k" and "chave y = Some k"
  shows "(chave_ordem x \<le> chave_ordem y) = (the (Data x) \<le> the (Data y))"
proof -
  obtain l p where k: "k = (l, p)" by (cases k)
  from chave_Some [of x l p] chave_Some [of y l p] assms k
  obtain d e where "Data x = Some d" "chave_ordem x = ((False, l), (False, p), (False, d))"
    "Data y = Some e" "chave_ordem y = ((False, l), (False, p), (False, e))"
    by auto
  then show ?thesis
    by (simp add: less_eq_prod_def less_prod_def)
qed

lemma ordenado_no_grupo:
  assumes "\<forall>r\<in>set g. chave r = Some k"
  shows "sorted (map chave_ordem g) = sorted (map (\<lambda>r. the (Data r)) g)"
  using assms
proof (induction g)
  case Nil
  show ?case by simp
next
  case (Cons r g)
  then show ?case by (simp add: ordem_no_grupo)
qed

lemma datas_no_grupo:
  assumes "\<forall>r\<in>set g. chave r = Some k"
  shows "map Data g = map Some (map (\<lambda>r. the (Data r)) g)"
    and "List.map_filter Data g = map (\<lambda>r. the (Data r)) g"
  using assms
proof (induction g)
  case Nil
  { case 1 show ?case by simp }
  { case 2 show ?case by simp }
next
  case (Cons r g)
  obtain l p where k: "k = (l, p)" by (cases k)
  { case 1
    with Cons.IH(1) chave_Some [of r l p] k show ?case by auto }
  { case 2
    with Cons.IH(2) chave_Some [of r l p] k show ?case by auto }
qed

lemma grupo_chave: "\<forall>r\<in>set (grupo k df). chave r = Some k"
  by (simp add: grupo_def)

lemma carregar_dados_em_ordem_de_data:
  "\<exists>ds. map Data (grupo k (carregar_dados df)) = map Some ds \<and> sorted ds"
proof -
  let ?g = "grupo k (carregar_dados df)"
  have "map chave_ordem ?g = map chave_ordem (sort_key chave_ordem (grupo k df))"
    by (rule coluna_carregar_dados) simp_all
  then have "sorted (map chave_ordem ?g)"
    by (simp add: sorted_sort_key)
  then have "sorted (map (\<lambda>r. the (Data r)) ?g)"
    using ordenado_no_grupo [OF grupo_chave, of k "carregar_dados df"] by simp
  with datas_no_grupo(1) [OF grupo_chave, of k "carregar_dados df"] show ?thesis
    by blast
qed

subsection \<open>Evaluation of the loader on the example tables\<close>

lemmas avalia_carga =
  carregar_dados_def coluna_meta_dia_def coluna_variacao_def ordena_def backfill_meta_def
  merge_dias_def dias_def grupo_def chave_def ano_mes_def transform_def variacao_def
  shift1_def menos_nan_def replace0_def fillna0_def chave_ordem_def na_ultimo_def
  List.map_filter_def lancamento_def less_eq_prod_def less_prod_def avalia_double

lemma carga_fora_de_ordem:
  "carregar_dados fora_de_ordem =
     [(lancamento ''A'' 1 100 500)
        \<lparr>DIAS := Some 2, Real_Variacao := Some 100, Meta_Dia := Some 250\<rparr>,
      (lancamento ''A'' 2 250 500)
        \<lparr>DIAS := Some 2, Real_Variacao := Some 150, Meta_Dia := Some 250\<rparr>]"
  by (simp add: fora_de_ordem_def avalia_carga)

lemma variacao_Nil [simp]: "variacao [] = []"
  by (simp add: variacao_def shift1_def)

lemma grupo_fora_de_ordem:
  "grupo (''A'', 2024, 1) (carregar_dados fora_de_ordem) = carregar_dados fora_de_ordem"
  "grupo (''A'', 2024, 1) fora_de_ordem = fora_de_ordem"
  by (simp_all add: fora_de_ordem_def avalia_carga)



subsection \<open>Claims C3 and C4: the daily delta\<close>

text \<open>
  Claim C3. Take the rows of a (store, month) group in the loaded table. They are the
  rows of the group of the raw table, as many as there, put in increasing date order
  by the sort of line 89. \<^verbatim>\<open>Real_Variacao\<close> of the first of them is its own \<^verbatim>\<open>Real\<close>,
  unmodified, and \<^verbatim>\<open>Real_Variacao\<close> of every other one is its \<^verbatim>\<open>Real\<close> minus the \<^verbatim>\<open>Real\<close>
  of the row just before it, the subtraction being the one of doubles: the double
  nearest to the difference of two numbers, and NaN when either cell is NaN. Nothing is
  clamped: the readings 100, 250, 250 give 100, 150, 0 and the readings 100, 40 give
  100, -60.
\<close>

theorem variacao_por_grupo:
  "length (grupo k (carregar_dados df)) = length (grupo k df) \<and>
   map (\<lambda>r. (Data r, Real_col r)) (grupo k (carregar_dados df)) =
     map (\<lambda>r. (Data r, Real_col r)) (sort_key chave_ordem (grupo k df)) \<and>
   (\<exists>ds. map Data (grupo k (carregar_dados df)) = map Some ds \<and> sorted ds) \<and>
   (grupo k df \<noteq> [] \<longrightarrow>
      Real_Variacao (grupo k (carregar_dados df) ! 0) =
        Real_col (grupo k (carregar_dados df) ! 0)) \<and>
   (\<forall>i. 0 < i \<and> i < length (grupo k df) \<longrightarrow>
      Real_Variacao (grupo k (carregar_dados df) ! i) =
        menos_nan (Real_col (grupo k (carregar_dados df) ! i))
          (Real_col (grupo k (carregar_dados df) ! (i - 1)))) \<and>
   menos_nan (Some x) (Some y) = Some (arred (x - y)) \<and>
   menos_nan None c = None \<and>
   menos_nan c None = None \<and>
   variacao [Some 100, Some 250, Some 250] = [Some 100, Some 150, Some 0] \<and>
   variacao [Some 100, Some 40] = [Some 100, Some (- 60)]"
proof -
  let ?g = "grupo k (carregar_dados df)"
  have len: "length ?g = length (grupo k df)"
    by simp
  have cols: "map (\<lambda>r. (Data r, Real_col r)) ?g =
      map (\<lambda>r. (Data r, Real_col r)) (sort_key chave_ordem (grupo k df))"
    by (rule coluna_carregar_dados) simp_all
  have v: "Real_Variacao (?g ! i) = variacao (map Real_col ?g) ! i" if "i < length ?g" for i
    using that nth_map [of i ?g Real_Variacao] by (simp only: variacao_carregar_dados)
  have first: "grupo k df \<noteq> [] \<longrightarrow> Real_Variacao (?g ! 0) = Real_col (?g ! 0)"
  proof
    assume "grupo k df \<noteq> []"
    with len have ne: "?g \<noteq> []" by (metis length_0_conv)
    then have l0: "0 < length ?g" by (simp del: length_grupo_carregar_dados)
    have "Real_Variacao (?g ! 0) = variacao (map Real_col ?g) ! 0"
      by (rule v [OF l0])
    also have "\<dots> = map Real_col ?g ! 0"
      using ne by (simp add: variacao_primeiro)
    also have "map Real_col ?g ! 0 = Real_col (?g ! 0)"
      by (rule nth_map [OF l0])
    finally show "Real_Variacao (?g ! 0) = Real_col (?g ! 0)" .
  qed
  have rest: "\<forall>i. 0 < i \<and> i < length (grupo k df) \<longrightarrow>
      Real_Variacao (?g ! i) = menos_nan (Real_col (?g ! i)) (Real_col (?g ! (i - 1)))"
  proof (intro allI impI)
    fix i assume i: "0 < i \<and> i < length (grupo k df)"
    with len have li: "i < length ?g" and lp: "i - 1 < length ?g"
      by auto
    have "Real_Variacao (?g ! i) = variacao (map Real_col ?g) ! i"
      by (rule v [OF li])
    also have "\<dots> = menos_nan (map Real_col ?g ! i) (map Real_col ?g ! (i - 1))"
      using i by (simp add: variacao_seguinte)
    also have "map Real_col ?g ! i = Real_col (?g ! i)"
      by (rule nth_map [OF li])
    also have "map Real_col ?g ! (i - 1) = Real_col (?g ! (i - 1))"
      by (rule nth_map [OF lp])
    finally show
      "Real_Variacao (?g ! i) = menos_nan (Real_col (?g ! i)) (Real_col (?g ! (i - 1)))" .
  qed
  have m: "menos_nan (Some x) (Some y) = Some (arred (x - y))"
    "menos_nan None c = None" "menos_nan c None = None"
    by (simp_all add: menos_nan_def split: option.splits)
  have ex: "variacao [Some 100, Some 250, Some 250] = [Some 100, Some 150, Some 0]"
    "variacao [Some 100, Some 40] = [Some 100, Some (- 60)]"
    by (simp_all add: variacao_Cons menos_nan_def avalia_double)
  from len cols carregar_dados_em_ordem_de_data [of k df] first rest m ex
  show ?thesis by (intro conjI)
qed

theorem variacao_por_grupo_witness:
  "grupo (''A'', 2024, 1) fora_de_ordem \<noteq> [] \<and>
   map Real_col fora_de_ordem = [Some 250, Some 100] \<and>
   map Real_col (grupo (''A'', 2024, 1) (carregar_dados fora_de_ordem)) = [Some 100, Some 250] \<and>
   Real_Variacao (grupo (''A'', 2024, 1) (carregar_dados fora_de_ordem) ! 0) = Some 100 \<and>
   Real_Variacao (grupo (''A'', 2024, 1) (carregar_dados fora_de_ordem) ! 1) = Some 150"
proof -
  note T = variacao_por_grupo [of "(''A'', 2024, 1)" fora_de_ordem]
  have ne: "grupo (''A'', 2024, 1) fora_de_ordem \<noteq> []"
    unfolding grupo_fora_de_ordem by (simp add: fora_de_ordem_def)
  have n: "length (grupo (''A'', 2024, 1) fora_de_ordem) = 2"
    unfolding grupo_fora_de_ordem by (simp add: fora_de_ordem_def)
  have r: "map Real_col (grupo (''A'', 2024, 1) (carregar_dados fora_de_ordem)) =
      [Some 100, Some 250]"
    by (simp only: grupo_fora_de_ordem) (simp add: carga_fora_de_ordem lancamento_def)
  then have r0: "Real_col (grupo (''A'', 2024, 1) (carregar_dados fora_de_ordem) ! 0) = Some 100"
    and r1: "Real_col (grupo (''A'', 2024, 1) (carregar_dados fora_de_ordem) ! 1) = Some 250"
    by (auto simp: map_eq_Cons_conv)
  have d: "menos_nan (Some 250) (Some 100) = Some 150"
    by (simp add: menos_nan_def avalia_double)
  note T0 = T [THEN conjunct2, THEN conjunct2, THEN conjunct2, THEN conjunct1, rule_format]
  note T1 = T [THEN conjunct2, THEN conjunct2, THEN conjunct2, THEN conjunct2, THEN conjunct1,
      rule_format, of 1]
  from T0 [OF ne] r0
  have a: "Real_Variacao (grupo (''A'', 2024, 1) (carregar_dados fora_de_ordem) ! 0) = Some 100"
    by simp
  have "0 < (1::nat) \<and> 1 < length (grupo (''A'', 2024, 1) fora_de_ordem)"
    by (simp only: n) simp
  from T1 [OF this] r0 r1 d
  have b: "Real_Variacao (grupo (''A'', 2024, 1) (carregar_dados fora_de_ordem) ! 1) = Some 150"
    by simp
  have c: "map Real_col fora_de_ordem = [Some 250, Some 100]"
    by (simp add: fora_de_ordem_def lancamento_def)
  from ne c r a b show ?thesis by (intro conjI)
qed




subsection \<open>The loaded table, row by row\<close>

lemma in_set_map2: "x \<in> set (map2 g xs ys) \<Longrightarrow> \<exists>a\<in>set xs. \<exists>b. x = g a b"
  by (auto simp: set_zip)

lemma linha_merge_dias:
  assumes "r \<in> set (merge_dias df)"
  shows "\<exists>r0\<in>set df. r =
     r0\<lparr>DIAS := (case chave r0 of None \<Rightarrow> None | Some k \<Rightarrow> Some (length (grupo k df)))\<rparr>"
proof -
  from assms obtain r0 where r0: "r0 \<in> set df"
    and r: "r = r0\<lparr>DIAS := (case chave r0 of None \<Rightarrow> None | Some k \<Rightarrow> map_of (dias df) k)\<rparr>"
    by (auto simp: merge_dias_def)
  have "(case chave r0 of None \<Rightarrow> None | Some k \<Rightarrow> map_of (dias df) k) =
      (case chave r0 of None \<Rightarrow> None | Some k \<Rightarrow> Some (length (grupo k df)))"
  proof (cases "chave r0")
    case None
    then show ?thesis by simp
  next
    case (Some k)
    with r0 have "grupo k df \<noteq> []"
      by (auto simp: grupo_vazio)
    with Some show ?thesis by (simp add: map_of_dias)
  qed
  with r0 r show ?thesis by auto
qed

lemma linha_carregada:
  assumes "r \<in> set (carregar_dados df)"
  shows "\<exists>r0\<in>set df. \<exists>m v.
     r = r0\<lparr>DIAS := (case chave r0 of None \<Rightarrow> None | Some k \<Rightarrow> Some (length (grupo k df))),
            Meta_Mes := m, Real_Variacao := v,
            Meta_Dia := (case chave r0 of None \<Rightarrow> None
                         | Some k \<Rightarrow> if length (grupo k df) = 0 then None
                                      else Some (m / real (length (grupo k df))))\<rparr>"
proof -
  let ?d1 = "merge_dias df"
  let ?d2 = "backfill_meta ?d1"
  let ?d3 = "ordena ?d2"
  let ?d4 = "coluna_variacao ?d3"
  from assms obtain r4 where r4: "r4 \<in> set ?d4"
    and r: "r = r4\<lparr>Meta_Dia := (case DIAS r4 of None \<Rightarrow> None
              | Some d \<Rightarrow> if d = 0 then None else Some (Meta_Mes r4 / real d))\<rparr>"
    by (auto simp: carregar_dados_def coluna_meta_dia_def)
  from in_set_map2 [OF r4 [unfolded coluna_variacao_def]]
  obtain r3 v where r3: "r3 \<in> set ?d3" and r4': "r4 = r3\<lparr>Real_Variacao := v\<rparr>"
    by blast
  from r3 have "r3 \<in> set ?d2"
    by (simp add: ordena_def)
  from in_set_map2 [OF this [unfolded backfill_meta_def]]
  obtain r2 c where r2: "r2 \<in> set ?d1" and r3': "r3 = r2\<lparr>Meta_Mes := fillna0 c\<rparr>"
    by blast
  from linha_merge_dias [OF r2] obtain r0 where r0: "r0 \<in> set df"
    and r2': "r2 = r0\<lparr>DIAS := (case chave r0 of None \<Rightarrow> None
                  | Some k \<Rightarrow> Some (length (grupo k df)))\<rparr>"
    by blast
  have "r = r0\<lparr>DIAS := (case chave r0 of None \<Rightarrow> None | Some k \<Rightarrow> Some (length (grupo k df))),
            Meta_Mes := fillna0 c, Real_Variacao := v,
            Meta_Dia := (case chave r0 of None \<Rightarrow> None
                         | Some k \<Rightarrow> if length (grupo k df) = 0 then None
                                      else Some (fillna0 c / real (length (grupo k df))))\<rparr>"
    unfolding r r4' r3' r2' by (cases "chave r0") simp_all
  with r0 show ?thesis by blast
qed

lemma dias_da_linha:
  assumes "r \<in> set (carregar_dados df)"
  shows "(chave r = None \<longrightarrow> DIAS r = None \<and> Meta_Dia r = None) \<and>
     (\<forall>k. chave r = Some k \<longrightarrow>
        grupo k df \<noteq> [] \<and> DIAS r = Some (length (grupo k df)) \<and>
        Meta_Dia r = Some (Meta_Mes r / real (length (grupo k df))))"
proof -
  from linha_carregada [OF assms] obtain r0 m v where r0: "r0 \<in> set df"
    and r: "r = r0\<lparr>DIAS := (case chave r0 of None \<Rightarrow> None | Some k \<Rightarrow> Some (length (grupo k df))),
            Meta_Mes := m, Real_Variacao := v,
            Meta_Dia := (case chave r0 of None \<Rightarrow> None
                         | Some k \<Rightarrow> if length (grupo k df) = 0 then None
                                      else Some (m / real (length (grupo k df))))\<rparr>"
    by blast
  have c: "chave r = chave r0"
    unfolding r by simp
  show ?thesis
  proof (cases "chave r0")
    case None
    with c r show ?thesis by simp
  next
    case (Some k)
    with r0 have "grupo k df \<noteq> []"
      by (auto simp: grupo_vazio)
    with Some c r show ?thesis by simp
  qed
qed

lemma chave_sem_data: "Data r = None \<Longrightarrow> chave r = None"
  by (simp add: chave_def ano_mes_def split: option.splits)

lemma carga_mesmo_dia:
  "carregar_dados mesmo_dia =
     [(lancamento ''A'' 1 100 600)
        \<lparr>DIAS := Some 2, Real_Variacao := Some 100, Meta_Dia := Some 300\<rparr>,
      (lancamento ''A'' 1 40 600)
        \<lparr>Produto := Some ''CARTAO'', DIAS := Some 2, Real_Variacao := Some (- 60),
         Meta_Dia := Some 300\<rparr>]"
  by (simp add: mesmo_dia_def avalia_carga)

lemma carga_sem_data:
  "carregar_dados sem_data =
     [(lancamento ''A'' 2 250 500)
        \<lparr>DIAS := Some 1, Real_Variacao := Some 250, Meta_Dia := Some 500\<rparr>,
      (lancamento ''A'' 1 100 0)\<lparr>Data := None\<rparr>]"
  by (simp add: sem_data_def avalia_carga)

subsection \<open>Claims C6 and C7: the day count and the daily target\<close>

text \<open>
  Claim C6 as stated fails: two rows of one store on the same day make a group of one
  distinct day, and \<^verbatim>\<open>DIAS\<close> is 2.
\<close>

theorem dias_nao_sao_dias_distintos:
  "map DIAS (grupo (''A'', 2024, 1) (carregar_dados mesmo_dia)) = [Some 2, Some 2] \<and>
   dias_distintos (''A'', 2024, 1) mesmo_dia = 1"
proof -
  have "grupo (''A'', 2024, 1) (carregar_dados mesmo_dia) = carregar_dados mesmo_dia"
    unfolding carga_mesmo_dia
    by (simp add: grupo_def chave_def ano_mes_def lancamento_def)
  then have "map DIAS (grupo (''A'', 2024, 1) (carregar_dados mesmo_dia)) = [Some 2, Some 2]"
    by (simp add: carga_mesmo_dia lancamento_def)
  moreover have "dias_distintos (''A'', 2024, 1) mesmo_dia = 1"
    by (simp add: dias_distintos_def dia_def mesmo_dia_def grupo_def chave_def ano_mes_def
        lancamento_def)
  ultimately show ?thesis by simp
qed

text \<open>
  Claim C6, amended. For every (store, month) group, \<^verbatim>\<open>DIAS\<close> is the number of rows
  the raw table has for the group (\<^verbatim>\<open>groupby(...).size()\<close>), and every row of the group
  in the loaded table carries it; the group has as many rows there as in the raw table.
  It is the number of distinct days of the group when no two rows of the group fall on
  the same day.
\<close>

theorem dias_conta_linhas:
  "length (grupo k (carregar_dados df)) = length (grupo k df) \<and>
   (\<forall>r\<in>set (grupo k (carregar_dados df)).
      DIAS r = Some (length (grupo k df)) \<and>
      (distinct (map dia (grupo k df)) \<longrightarrow> DIAS r = Some (dias_distintos k df)))"
proof -
  have "DIAS r = Some (length (grupo k df)) \<and>
      (distinct (map dia (grupo k df)) \<longrightarrow> DIAS r = Some (dias_distintos k df))"
    if "r \<in> set (grupo k (carregar_dados df))" for r
  proof -
    from that have "r \<in> set (carregar_dados df)" and "chave r = Some k"
      by (simp_all add: grupo_def)
    with dias_da_linha [of r df] have d: "DIAS r = Some (length (grupo k df))"
      by simp
    have "distinct (map dia (grupo k df)) \<longrightarrow> dias_distintos k df = length (grupo k df)"
      by (simp add: dias_distintos_def distinct_remdups_id)
    with d show ?thesis by simp
  qed
  moreover have "length (grupo k (carregar_dados df)) = length (grupo k df)"
    by simp
  ultimately show ?thesis by blast
qed

theorem dias_conta_linhas_witness:
  "grupo (''A'', 2024, 1) (carregar_dados fora_de_ordem) = carregar_dados fora_de_ordem \<and>
   carregar_dados fora_de_ordem \<noteq> [] \<and>
   distinct (map dia (grupo (''A'', 2024, 1) fora_de_ordem)) \<and>
   dias_distintos (''A'', 2024, 1) fora_de_ordem = 2 \<and>
   map DIAS (carregar_dados fora_de_ordem) = [Some 2, Some 2]"
proof -
  note T = dias_conta_linhas [of "(''A'', 2024, 1)" fora_de_ordem, THEN conjunct2, rule_format]
  have g: "grupo (''A'', 2024, 1) (carregar_dados fora_de_ordem) = carregar_dados fora_de_ordem"
    by (rule grupo_fora_de_ordem)
  have ne: "carregar_dados fora_de_ordem \<noteq> []"
    by (simp add: carga_fora_de_ordem)
  have di: "distinct (map dia (grupo (''A'', 2024, 1) fora_de_ordem))"
    by (simp only: grupo_fora_de_ordem) (simp add: fora_de_ordem_def dia_def lancamento_def)
  let ?r = "(lancamento ''A'' 1 100 500)
        \<lparr>DIAS := Some 2, Real_Variacao := Some 100, Meta_Dia := Some 250\<rparr>"
  have m: "?r \<in> set (grupo (''A'', 2024, 1) (carregar_dados fora_de_ordem))"
    by (simp only: g) (simp add: carga_fora_de_ordem)
  from T [OF m] di have "DIAS ?r = Some (dias_distintos (''A'', 2024, 1) fora_de_ordem)"
    by blast
  then have "dias_distintos (''A'', 2024, 1) fora_de_ordem = 2"
    by simp
  moreover have "map DIAS (carregar_dados fora_de_ordem) = [Some 2, Some 2]"
    by (simp add: carga_fora_de_ordem)
  ultimately
  have "dias_distintos (''A'', 2024, 1) fora_de_ordem = 2 \<and>
      map DIAS (carregar_dados fora_de_ordem) = [Some 2, Some 2]"
    by blast
  with g ne di show ?thesis by blast
qed

text \<open>
  Claim C7 as stated fails: a row whose date did not parse is a row of the loaded
  table, it has no \<^verbatim>\<open>DIAS\<close> (so not a \<^verbatim>\<open>DIAS\<close> of at least 1) and its \<^verbatim>\<open>Meta Dia\<close>
  is NaN.
\<close>

theorem linha_sem_data_nao_tem_dias:
  "map Data (carregar_dados sem_data) = [Some (2024, 1, 2, 0), None] \<and>
   map DIAS (carregar_dados sem_data) = [Some 1, None] \<and>
   map Meta_Dia (carregar_dados sem_data) = [Some 500, None]"
  by (simp add: carga_sem_data lancamento_def)

text \<open>
  Claim C7, amended. For every row of the loaded table that belongs to a
  (store, month) group, \<^verbatim>\<open>DIAS\<close> is the size of its group and at least 1, and
  \<^verbatim>\<open>Meta Dia\<close> is the row's back-filled \<^verbatim>\<open>Meta Mes\<close> divided by it. A row without a
  group (null store or null date) has no \<^verbatim>\<open>DIAS\<close> and its \<^verbatim>\<open>Meta Dia\<close> is NaN. No row
  has a \<^verbatim>\<open>DIAS\<close> of 0, so the division never divides by zero.
\<close>

theorem meta_dia_sem_divisao_por_zero:
  "r \<in> set (carregar_dados df) \<Longrightarrow>
   DIAS r \<noteq> Some 0 \<and>
   (chave r = None \<longrightarrow> DIAS r = None \<and> Meta_Dia r = None) \<and>
   (\<forall>k. chave r = Some k \<longrightarrow>
      (\<exists>n. 1 \<le> n \<and> n = length (grupo k df) \<and> DIAS r = Some n \<and>
           Meta_Dia r = Some (Meta_Mes r / real n)))"
proof -
  assume r: "r \<in> set (carregar_dados df)"
  note D = dias_da_linha [OF r]
  have pos: "1 \<le> length (grupo k df)" if "grupo k df \<noteq> []" for k
    using that by (cases "grupo k df") simp_all
  have a: "DIAS r \<noteq> Some 0"
  proof (cases "chave r")
    case None
    with D show ?thesis by simp
  next
    case (Some k)
    with D pos [of k] show ?thesis by auto
  qed
  have b: "\<forall>k. chave r = Some k \<longrightarrow>
      (\<exists>n. 1 \<le> n \<and> n = length (grupo k df) \<and> DIAS r = Some n \<and>
           Meta_Dia r = Some (Meta_Mes r / real n))"
    using D pos by auto
  from a b D show ?thesis by blast
qed

theorem meta_dia_sem_divisao_por_zero_witness:
  "(lancamento ''A'' 2 250 500)
      \<lparr>DIAS := Some 1, Real_Variacao := Some 250, Meta_Dia := Some 500\<rparr>
     \<in> set (carregar_dados sem_data) \<and>
   (lancamento ''A'' 1 100 0)\<lparr>Data := None\<rparr> \<in> set (carregar_dados sem_data) \<and>
   chave ((lancamento ''A'' 1 100 0)\<lparr>Data := None\<rparr>) = None \<and>
   DIAS ((lancamento ''A'' 1 100 0)\<lparr>Data := None\<rparr>) = None \<and>
   Meta_Dia ((lancamento ''A'' 1 100 0)\<lparr>Data := None\<rparr>) = None"
proof -
  let ?r = "(lancamento ''A'' 1 100 0)\<lparr>Data := None\<rparr>"
  have m: "?r \<in> set (carregar_dados sem_data)"
    by (simp add: carga_sem_data)
  have m2: "(lancamento ''A'' 2 250 500)
      \<lparr>DIAS := Some 1, Real_Variacao := Some 250, Meta_Dia := Some 500\<rparr>
     \<in> set (carregar_dados sem_data)"
    by (simp add: carga_sem_data)
  have c: "chave ?r = None"
    by (simp add: chave_def ano_mes_def lancamento_def)
  from meta_dia_sem_divisao_por_zero [OF m] c
  have "DIAS ?r = None \<and> Meta_Dia ?r = None"
    by blast
  with m m2 c show ?thesis by blast
qed

section \<open>The page script\<close>

subsection \<open>Filters and window\<close>

lemma se_filtra: "(if c then filter P xs else xs) = filter (\<lambda>r. c \<longrightarrow> P r) xs"
  by simp

lemma filtragem_criterio: "filtragem s rede = filter (criterio s) rede"
  unfolding filtragem_def Let_def se_filtra filter_filter
  by (rule filter_cong [OF refl]) (auto simp: criterio_def)

lemma criterio_tem_data: "criterio s r \<Longrightarrow> Data r \<noteq> None"
  by (auto simp: criterio_def igual_def ano_def split: option.splits)

lemma filtragem_sem_nulos:
  "filtragem s (filter (\<lambda>r. Data r \<noteq> None) rede) = filtragem s rede"
proof -
  have "filter (criterio s) (filter (\<lambda>r. Data r \<noteq> None) rede) = filter (criterio s) rede"
    unfolding filter_filter
    by (rule filter_cong [OF refl]) (use criterio_tem_data in blast)
  then show ?thesis by (simp only: filtragem_criterio)
qed

lemma criterio_janeiro:
  "criterio janeiro r = (\<exists>d t. Data r = Some (2024, 1, d, t))"
  by (cases "Data r") (auto simp: criterio_def janeiro_def igual_def ano_def mes_def)

lemma carga_sem_data_janeiro:
  "filtragem janeiro (carregar_dados sem_data) =
     [(lancamento ''A'' 2 250 500)
        \<lparr>DIAS := Some 1, Real_Variacao := Some 250, Meta_Dia := Some 500\<rparr>]"
  unfolding filtragem_criterio carga_sem_data
  by (simp add: criterio_janeiro lancamento_def)

text \<open>
  Claim C10. A row whose date did not parse never passes the year and month window,
  whatever is selected (a NaN selection included): it is not among the rows handed to
  the aggregation, and the page shows what it would show, were the row deleted from
  the loaded table. In the loaded table such a row has no \<^verbatim>\<open>DIAS\<close>.
\<close>

theorem linha_sem_data_fica_de_fora:
  "(Data r = None \<longrightarrow> r \<notin> set (filtragem s rede)) \<and>
   filtragem s rede = filtragem s (filter (\<lambda>r. Data r \<noteq> None) rede) \<and>
   pagina s rede = pagina s (filter (\<lambda>r. Data r \<noteq> None) rede) \<and>
   (r \<in> set (carregar_dados df) \<and> Data r = None \<longrightarrow> DIAS r = None \<and> chave r = None)"
proof -
  have a: "Data r = None \<longrightarrow> r \<notin> set (filtragem s rede)"
    using criterio_tem_data [of s r] by (auto simp: filtragem_criterio)
  have b: "filtragem s rede = filtragem s (filter (\<lambda>r. Data r \<noteq> None) rede)"
    by (simp only: filtragem_sem_nulos)
  have c: "pagina s rede = pagina s (filter (\<lambda>r. Data r \<noteq> None) rede)"
    unfolding pagina_def by (simp only: filtragem_sem_nulos)
  have d: "r \<in> set (carregar_dados df) \<and> Data r = None \<longrightarrow> DIAS r = None \<and> chave r = None"
  proof
    assume h: "r \<in> set (carregar_dados df) \<and> Data r = None"
    then have k: "chave r = None"
      by (simp add: chave_sem_data)
    from h have "r \<in> set (carregar_dados df)" ..
    from dias_da_linha [OF this, THEN conjunct1, THEN mp, OF k] k
    show "DIAS r = None \<and> chave r = None"
      by simp
  qed
  from a b c d show ?thesis by blast
qed

theorem linha_sem_data_fica_de_fora_witness:
  "(lancamento ''A'' 1 100 0)\<lparr>Data := None\<rparr> \<in> set (carregar_dados sem_data) \<and>
   Data ((lancamento ''A'' 1 100 0)\<lparr>Data := None\<rparr>) = None \<and>
   (lancamento ''A'' 1 100 0)\<lparr>Data := None\<rparr> \<notin> set (filtragem janeiro (carregar_dados sem_data)) \<and>
   filtragem janeiro (carregar_dados sem_data) \<noteq> [] \<and>
   DIAS ((lancamento ''A'' 1 100 0)\<lparr>Data := None\<rparr>) = None"
proof -
  let ?r = "(lancamento ''A'' 1 100 0)\<lparr>Data := None\<rparr>"
  note T = linha_sem_data_fica_de_fora [of ?r janeiro "carregar_dados sem_data" sem_data]
  have m: "?r \<in> set (carregar_dados sem_data)"
    by (simp add: carga_sem_data)
  have n: "Data ?r = None"
    by simp
  have a: "?r \<notin> set (filtragem janeiro (carregar_dados sem_data))"
    by (rule T [THEN conjunct1, THEN mp, OF n])
  have b: "DIAS ?r = None"
    by (rule T [THEN conjunct2, THEN conjunct2, THEN conjunct2, THEN mp, OF conjI [OF m n],
          THEN conjunct1])
  have c: "filtragem janeiro (carregar_dados sem_data) \<noteq> []"
    by (simp add: carga_sem_data_janeiro)
  show ?thesis
    using m n a b c by (intro conjI)
qed

subsection \<open>The aggregation\<close>

lemma length_cumsum_de [simp]: "length (cumsum_de a xs) = length xs"
  by (induction xs arbitrary: a) auto

lemma cumsum_de_nth: "i < length xs \<Longrightarrow> cumsum_de a xs ! i = a + sum_list (take (Suc i) xs)"
proof (induction xs arbitrary: a i)
  case Nil
  then show ?case by simp
next
  case (Cons x xs)
  show ?case
  proof (cases i)
    case 0
    then show ?thesis by simp
  next
    case (Suc j)
    with Cons.prems have "j < length xs" by simp
    from Cons.IH [OF this, of "a + x"] Suc show ?thesis by simp
  qed
qed

lemma cumsum_nth: "i < length xs \<Longrightarrow> cumsum xs ! i = sum_list (take (Suc i) xs)"
  by (simp add: cumsum_def cumsum_de_nth)

lemma agrupa_por_data_eq:
  "agrupa_por_data df_f =
     map (\<lambda>d. (d, soma (map Real_Variacao (filter (\<lambda>r. Data r = Some d) df_f)),
                   soma (map Meta_Dia (filter (\<lambda>r. Data r = Some d) df_f))))
       (sort (remdups (List.map_filter Data df_f)))"
  unfolding agrupa_por_data_def
  by (rule sort_key_id_if_sorted) (simp add: o_def)

lemma zip3_fst:
  "length xs = length ys \<Longrightarrow> length ys = length zs \<Longrightarrow>
   map (\<lambda>(x, y, z). h x) (zip xs (zip ys zs)) = map h xs"
  by (induction xs ys zs rule: list_induct3) auto

lemma zip3_snd:
  "length xs = length ys \<Longrightarrow> length ys = length zs \<Longrightarrow>
   map (\<lambda>(x, y, z). h y) (zip xs (zip ys zs)) = map h ys"
  by (induction xs ys zs rule: list_induct3) auto

lemma zip3_thd:
  "length xs = length ys \<Longrightarrow> length ys = length zs \<Longrightarrow>
   map (\<lambda>(x, y, z). h z) (zip xs (zip ys zs)) = map h zs"
  by (induction xs ys zs rule: list_induct3) auto

lemma colunas_df_grouped:
  "map Data_g (df_grouped df_f) = map fst (agrupa_por_data df_f)"
  "map Real_Variacao_g (df_grouped df_f) = map (\<lambda>(d, v, m). v) (agrupa_por_data df_f)"
  "map Meta_Dia_g (df_grouped df_f) = map (\<lambda>(d, v, m). m) (agrupa_por_data df_f)"
  "map REAL_ACUM (df_grouped df_f) = cumsum (map (\<lambda>(d, v, m). v) (agrupa_por_data df_f))"
  "map META_ACUM (df_grouped df_f) = cumsum (map (\<lambda>(d, v, m). m) (agrupa_por_data df_f))"
proof -
  let ?g = "agrupa_por_data df_f"
  let ?ra = "cumsum (map (\<lambda>(d, v, m). v) ?g)"
  let ?ma = "cumsum (map (\<lambda>(d, v, m). m) ?g)"
  have l: "length ?g = length ?ra" "length ?ra = length ?ma"
    by (simp_all add: cumsum_def)
  show "map Data_g (df_grouped df_f) = map fst ?g"
    using zip3_fst [OF l, of fst]
    by (simp add: df_grouped_def Let_def o_def case_prod_unfold)
  show "map Real_Variacao_g (df_grouped df_f) = map (\<lambda>(d, v, m). v) ?g"
    using zip3_fst [OF l, of "\<lambda>(d, v, m). v"]
    by (simp add: df_grouped_def Let_def o_def case_prod_unfold)
  show "map Meta_Dia_g (df_grouped df_f) = map (\<lambda>(d, v, m). m) ?g"
    using zip3_fst [OF l, of "\<lambda>(d, v, m). m"]
    by (simp add: df_grouped_def Let_def o_def case_prod_unfold)
  show "map REAL_ACUM (df_grouped df_f) = ?ra"
    using zip3_snd [OF l, of "\<lambda>x. x"]
    by (simp add: df_grouped_def Let_def o_def case_prod_unfold)
  show "map META_ACUM (df_grouped df_f) = ?ma"
    using zip3_thd [OF l, of "\<lambda>x. x"]
    by (simp add: df_grouped_def Let_def o_def case_prod_unfold)
qed

lemma length_df_grouped:
  "length (df_grouped df_f) = length (remdups (List.map_filter Data df_f))"
  using arg_cong [OF colunas_df_grouped(1) [of df_f], of length]
  by (simp add: agrupa_por_data_eq)

lemma datas_df_grouped:
  "map Data_g (df_grouped df_f) = sort (remdups (List.map_filter Data df_f))"
  by (simp add: colunas_df_grouped(1) agrupa_por_data_eq o_def)

lemma linha_df_grouped:
  assumes "x \<in> set (df_grouped df_f)"
  shows "Real_Variacao_g x =
       soma (map Real_Variacao (filter (\<lambda>r. Data r = Some (Data_g x)) df_f)) \<and>
     Meta_Dia_g x = soma (map Meta_Dia (filter (\<lambda>r. Data r = Some (Data_g x)) df_f)) \<and>
     DESVIO_DIA x = Real_Variacao_g x - Meta_Dia_g x \<and>
     DESVIO_ACUM x = REAL_ACUM x - META_ACUM x"
proof -
  let ?g = "agrupa_por_data df_f"
  from assms obtain p ra ma where p: "(p, ra, ma) \<in> set (zip ?g (zip (cumsum (map (\<lambda>(d, v, m). v) ?g))
        (cumsum (map (\<lambda>(d, v, m). m) ?g))))"
    and x: "x = \<lparr>Data_g = fst p, Real_Variacao_g = fst (snd p), Meta_Dia_g = snd (snd p),
        REAL_ACUM = ra, META_ACUM = ma, DESVIO_DIA = fst (snd p) - snd (snd p),
        DESVIO_ACUM = ra - ma\<rparr>"
    by (auto simp: df_grouped_def Let_def)
  from p have "p \<in> set ?g"
    by (rule set_zip_leftD)
  then obtain d where "p = (d, soma (map Real_Variacao (filter (\<lambda>r. Data r = Some d) df_f)),
      soma (map Meta_Dia (filter (\<lambda>r. Data r = Some d) df_f)))"
    unfolding agrupa_por_data_eq by auto
  with x show ?thesis by simp
qed

lemma acumulados_df_grouped:
  assumes "i < length (df_grouped df_f)"
  shows "REAL_ACUM (df_grouped df_f ! i) =
       sum_list (map Real_Variacao_g (take (Suc i) (df_grouped df_f))) \<and>
     META_ACUM (df_grouped df_f ! i) =
       sum_list (map Meta_Dia_g (take (Suc i) (df_grouped df_f)))"
proof -
  let ?t = "df_grouped df_f"
  have "REAL_ACUM (?t ! i) = map REAL_ACUM ?t ! i"
    using assms by simp
  also have "\<dots> = cumsum (map Real_Variacao_g ?t) ! i"
    by (simp only: colunas_df_grouped)
  also have "\<dots> = sum_list (take (Suc i) (map Real_Variacao_g ?t))"
    using assms by (simp add: cumsum_nth)
  finally have a: "REAL_ACUM (?t ! i) = sum_list (map Real_Variacao_g (take (Suc i) ?t))"
    by (simp add: take_map)
  have "META_ACUM (?t ! i) = map META_ACUM ?t ! i"
    using assms by simp
  also have "\<dots> = cumsum (map Meta_Dia_g ?t) ! i"
    by (simp only: colunas_df_grouped)
  also have "\<dots> = sum_list (take (Suc i) (map Meta_Dia_g ?t))"
    using assms by (simp add: cumsum_nth)
  finally have b: "META_ACUM (?t ! i) = sum_list (map Meta_Dia_g (take (Suc i) ?t))"
    by (simp add: take_map)
  from a b show ?thesis ..
qed

lemma carga_cenario:
  "carregar_dados cenario =
     [(lancamento ''A'' 1 100 600)
        \<lparr>DIAS := Some 2, Real_Variacao := Some 100, Meta_Dia := Some 300\<rparr>,
      (lancamento ''A'' 2 300 600)
        \<lparr>DIAS := Some 2, Real_Variacao := Some 200, Meta_Dia := Some 300\<rparr>,
      (lancamento ''B'' 1 50 200)
        \<lparr>DIAS := Some 2, Real_Variacao := Some 50, Meta_Dia := Some 100\<rparr>,
      (lancamento ''B'' 2 50 200)
        \<lparr>DIAS := Some 2, Real_Variacao := Some 0, Meta_Dia := Some 100\<rparr>]"
  by (simp add: cenario_def avalia_carga)

lemma janela_cenario: "filtragem janeiro (carregar_dados cenario) = carregar_dados cenario"
  unfolding filtragem_criterio carga_cenario
  by (simp add: criterio_janeiro lancamento_def)

lemma tabela_cenario:
  "df_grouped (carregar_dados cenario) =
     [\<lparr>Data_g = (2024, 1, 1, 0), Real_Variacao_g = 150, Meta_Dia_g = 400, REAL_ACUM = 150,
       META_ACUM = 400, DESVIO_DIA = - 250, DESVIO_ACUM = - 250\<rparr>,
      \<lparr>Data_g = (2024, 1, 2, 0), Real_Variacao_g = 200, Meta_Dia_g = 400, REAL_ACUM = 350,
       META_ACUM = 800, DESVIO_DIA = - 200, DESVIO_ACUM = - 450\<rparr>]"
  unfolding carga_cenario
  by (simp add: df_grouped_def agrupa_por_data_eq soma_def cumsum_def List.map_filter_def
      lancamento_def less_eq_prod_def less_prod_def)

text \<open>
  Claim C8. The aggregation makes one row per date present in the filtered rows, in
  increasing order of the date. In the row of a date, \<^verbatim>\<open>Real_Variacao\<close> and
  \<^verbatim>\<open>Meta Dia\<close> are the sums (not the means) of those columns over all filtered rows of
  that date, \<^verbatim>\<open>DESVIO_DIA\<close> is their difference and \<^verbatim>\<open>DESVIO_ACUM\<close> is \<^verbatim>\<open>REAL_ACUM\<close>
  minus \<^verbatim>\<open>META_ACUM\<close>; \<^verbatim>\<open>REAL_ACUM\<close> and \<^verbatim>\<open>META_ACUM\<close> of the row at position \<open>i\<close>
  are the sums of \<^verbatim>\<open>Real_Variacao\<close> and \<^verbatim>\<open>Meta Dia\<close> over the rows at positions 0 to
  \<open>i\<close>. On the two-store scenario, loaded and filtered for January 2024, this gives
  \<^verbatim>\<open>REAL_ACUM\<close> 150, 350, \<^verbatim>\<open>META_ACUM\<close> 400, 800 and \<^verbatim>\<open>DESVIO_ACUM\<close> -250, -450.
\<close>

theorem df_grouped_contrato:
  "map Data_g (df_grouped df_f) = sort (remdups (List.map_filter Data df_f)) \<and>
   sorted (map Data_g (df_grouped df_f)) \<and>
   distinct (map Data_g (df_grouped df_f)) \<and>
   set (map Data_g (df_grouped df_f)) = {d. \<exists>r\<in>set df_f. Data r = Some d} \<and>
   (\<forall>x\<in>set (df_grouped df_f).
      Real_Variacao_g x =
        soma (map Real_Variacao (filter (\<lambda>r. Data r = Some (Data_g x)) df_f)) \<and>
      Meta_Dia_g x = soma (map Meta_Dia (filter (\<lambda>r. Data r = Some (Data_g x)) df_f)) \<and>
      DESVIO_DIA x = Real_Variacao_g x - Meta_Dia_g x \<and>
      DESVIO_ACUM x = REAL_ACUM x - META_ACUM x) \<and>
   (\<forall>i<length (df_grouped df_f).
      REAL_ACUM (df_grouped df_f ! i) =
        sum_list (map Real_Variacao_g (take (Suc i) (df_grouped df_f))) \<and>
      META_ACUM (df_grouped df_f ! i) =
        sum_list (map Meta_Dia_g (take (Suc i) (df_grouped df_f)))) \<and>
   map REAL_ACUM (df_grouped (filtragem janeiro (carregar_dados cenario))) = [150, 350] \<and>
   map META_ACUM (df_grouped (filtragem janeiro (carregar_dados cenario))) = [400, 800] \<and>
   map DESVIO_ACUM (df_grouped (filtragem janeiro (carregar_dados cenario))) = [- 250, - 450]"
proof -
  let ?t = "df_grouped df_f"
  have d: "map Data_g ?t = sort (remdups (List.map_filter Data df_f))"
    by (rule datas_df_grouped)
  have s: "sorted (map Data_g ?t)" and di: "distinct (map Data_g ?t)"
    unfolding d by simp_all
  have st: "set (map Data_g ?t) = {d. \<exists>r\<in>set df_f. Data r = Some d}"
    unfolding d by (simp add: set_map_filter_Some)
  have rows: "\<forall>x\<in>set ?t.
      Real_Variacao_g x =
        soma (map Real_Variacao (filter (\<lambda>r. Data r = Some (Data_g x)) df_f)) \<and>
      Meta_Dia_g x = soma (map Meta_Dia (filter (\<lambda>r. Data r = Some (Data_g x)) df_f)) \<and>
      DESVIO_DIA x = Real_Variacao_g x - Meta_Dia_g x \<and>
      DESVIO_ACUM x = REAL_ACUM x - META_ACUM x"
    using linha_df_grouped [of _ df_f] by blast
  have acc: "\<forall>i<length ?t.
      REAL_ACUM (?t ! i) = sum_list (map Real_Variacao_g (take (Suc i) ?t)) \<and>
      META_ACUM (?t ! i) = sum_list (map Meta_Dia_g (take (Suc i) ?t))"
    using acumulados_df_grouped [of _ df_f] by blast
  have ex: "map REAL_ACUM (df_grouped (filtragem janeiro (carregar_dados cenario))) = [150, 350]"
    "map META_ACUM (df_grouped (filtragem janeiro (carregar_dados cenario))) = [400, 800]"
    "map DESVIO_ACUM (df_grouped (filtragem janeiro (carregar_dados cenario))) = [- 250, - 450]"
    by (simp_all add: janela_cenario tabela_cenario)
  show ?thesis
    using d s di st rows acc ex by (intro conjI)
qed

theorem df_grouped_contrato_witness:
  "df_grouped (carregar_dados cenario) ! 1 \<in> set (df_grouped (carregar_dados cenario)) \<and>
   1 < length (df_grouped (carregar_dados cenario)) \<and>
   Real_Variacao_g (df_grouped (carregar_dados cenario) ! 1) = 200 \<and>
   soma (map Real_Variacao
     (filter (\<lambda>r. Data r = Some (2024, 1, 2, 0)) (carregar_dados cenario))) = 200 \<and>
   REAL_ACUM (df_grouped (carregar_dados cenario) ! 1) = 350 \<and>
   sum_list (map Real_Variacao_g (take (Suc 1) (df_grouped (carregar_dados cenario)))) = 350"
proof -
  let ?t = "df_grouped (carregar_dados cenario)"
  note T = df_grouped_contrato [of "carregar_dados cenario"]
  note R = T [THEN conjunct2, THEN conjunct2, THEN conjunct2, THEN conjunct2, THEN conjunct1,
      rule_format]
  note A = T [THEN conjunct2, THEN conjunct2, THEN conjunct2, THEN conjunct2, THEN conjunct2,
      THEN conjunct1, rule_format]
  have l: "1 < length ?t"
    by (simp add: tabela_cenario)
  then have m: "?t ! 1 \<in> set ?t"
    by (rule nth_mem)
  have v: "Real_Variacao_g (?t ! 1) = 200" and ra: "REAL_ACUM (?t ! 1) = 350"
    and dt: "Data_g (?t ! 1) = (2024, 1, 2, 0)"
    by (simp_all add: tabela_cenario)
  from R [OF m, THEN conjunct1] v dt
  have a: "soma (map Real_Variacao
     (filter (\<lambda>r. Data r = Some (2024, 1, 2, 0)) (carregar_dados cenario))) = 200"
    by simp
  from A [OF l, THEN conjunct1] ra
  have b: "sum_list (map Real_Variacao_g (take (Suc 1) ?t)) = 350"
    by simp
  show ?thesis
    using m l v a ra b by (intro conjI)
qed

text \<open>
  Claim C9. When no row passes the filters and the window, the page warns and stops:
  it returns no table, and neither the aggregation nor the formatting nor the export
  is among the steps it runs; nothing is raised. When some row passes, the page
  aggregates these rows and the table it shows has at least one row, so the two
  outcomes cannot be confused.
\<close>

theorem pagina_sem_dados:
  "(filtragem s rede = [] \<longrightarrow>
      pagina s rede = ([Aviso_Sem_Dados, Parada], None) \<and>
      Agregacao \<notin> set (fst (pagina s rede)) \<and>
      Formatacao \<notin> set (fst (pagina s rede)) \<and>
      Exportacao \<notin> set (fst (pagina s rede))) \<and>
   (filtragem s rede \<noteq> [] \<longrightarrow>
      pagina s rede =
        ([Agregacao, Grafico, Formatacao, Exportacao], Some (df_grouped (filtragem s rede))) \<and>
      df_grouped (filtragem s rede) \<noteq> []) \<and>
   (filtragem s rede = []) = (snd (pagina s rede) = None) \<and>
   (filtragem s rede = []) = (\<forall>r\<in>set rede. \<not> criterio s r)"
proof -
  have a: "filtragem s rede = [] \<longrightarrow>
      pagina s rede = ([Aviso_Sem_Dados, Parada], None) \<and>
      Agregacao \<notin> set (fst (pagina s rede)) \<and>
      Formatacao \<notin> set (fst (pagina s rede)) \<and>
      Exportacao \<notin> set (fst (pagina s rede))"
    by (simp add: pagina_def Let_def)
  have ne: "df_grouped (filtragem s rede) \<noteq> []" if "filtragem s rede \<noteq> []"
  proof -
    from that obtain r where r: "r \<in> set (filtragem s rede)"
      by (cases "filtragem s rede") auto
    then have "criterio s r"
      by (simp add: filtragem_criterio)
    then obtain d where "Data r = Some d"
      using criterio_tem_data by blast
    with r have "d \<in> set (List.map_filter Data (filtragem s rede))"
      by (auto simp: set_map_filter_Some)
    then have "remdups (List.map_filter Data (filtragem s rede)) \<noteq> []"
      by auto
    then show ?thesis
      using length_df_grouped [of "filtragem s rede"] by (metis length_0_conv)
  qed
  have b: "filtragem s rede \<noteq> [] \<longrightarrow>
      pagina s rede =
        ([Agregacao, Grafico, Formatacao, Exportacao], Some (df_grouped (filtragem s rede))) \<and>
      df_grouped (filtragem s rede) \<noteq> []"
    using ne by (simp add: pagina_def Let_def)
  have c: "(filtragem s rede = []) = (snd (pagina s rede) = None)"
    by (simp add: pagina_def Let_def)
  have d: "(filtragem s rede = []) = (\<forall>r\<in>set rede. \<not> criterio s r)"
    by (simp add: filtragem_criterio filter_empty_conv)
  show ?thesis
    using a b c d by (intro conjI)
qed

theorem pagina_sem_dados_witness:
  "filtragem (janeiro\<lparr>mes_sel := Some 2\<rparr>) (carregar_dados cenario) = [] \<and>
   pagina (janeiro\<lparr>mes_sel := Some 2\<rparr>) (carregar_dados cenario) =
     ([Aviso_Sem_Dados, Parada], None) \<and>
   filtragem janeiro (carregar_dados cenario) \<noteq> [] \<and>
   map REAL_ACUM (the (snd (pagina janeiro (carregar_dados cenario)))) = [150, 350]"
proof -
  note T1 = pagina_sem_dados [of "janeiro\<lparr>mes_sel := Some 2\<rparr>" "carregar_dados cenario"]
  note T2 = pagina_sem_dados [of janeiro "carregar_dados cenario"]
  have e: "filtragem (janeiro\<lparr>mes_sel := Some 2\<rparr>) (carregar_dados cenario) = []"
    unfolding filtragem_criterio carga_cenario
    by (simp add: criterio_def janeiro_def igual_def mes_def lancamento_def)
  have a: "pagina (janeiro\<lparr>mes_sel := Some 2\<rparr>) (carregar_dados cenario) =
      ([Aviso_Sem_Dados, Parada], None)"
    by (rule T1 [THEN conjunct1, THEN mp, OF e, THEN conjunct1])
  have n: "filtragem janeiro (carregar_dados cenario) \<noteq> []"
    by (simp only: janela_cenario) (simp add: carga_cenario)
  have "pagina janeiro (carregar_dados cenario) =
      ([Agregacao, Grafico, Formatacao, Exportacao],
       Some (df_grouped (filtragem janeiro (carregar_dados cenario))))"
    by (rule T2 [THEN conjunct2, THEN conjunct1, THEN mp, OF n, THEN conjunct1])
  then have b: "map REAL_ACUM (the (snd (pagina janeiro (carregar_dados cenario)))) = [150, 350]"
    by (simp add: janela_cenario tabela_cenario)
  show ?thesis
    using e a n b by (intro conjI)
qed

section \<open>The target back-fill\<close>

lemma next_valid_replace0: "next_valid (map replace0 xs) = find (\<lambda>m. m \<noteq> 0) xs"
  by (induction xs) (simp_all add: replace0_def)

lemma preenche_Nil [simp]: "preenche [] = []"
  by (simp add: preenche_def)

lemma preenche_Cons:
  "preenche (x # xs) =
     (case find (\<lambda>m. m \<noteq> 0) (x # xs) of None \<Rightarrow> 0 | Some m \<Rightarrow> m) # preenche xs"
proof (cases "x = 0")
  case True
  then have "replace0 x = None"
    by (simp add: replace0_def)
  with True show ?thesis
    by (cases "find (\<lambda>m. m \<noteq> 0) xs")
       (simp_all add: preenche_def fillna0_def next_valid_replace0)
next
  case False
  then have "replace0 x = Some x"
    by (simp add: replace0_def)
  with False show ?thesis
    by (simp add: preenche_def fillna0_def)
qed

lemma preenche_nth:
  "i < length ms \<Longrightarrow>
   preenche ms ! i = (case find (\<lambda>m. m \<noteq> 0) (drop i ms) of None \<Rightarrow> 0 | Some m \<Rightarrow> m)"
proof (induction ms arbitrary: i)
  case Nil
  then show ?case by simp
next
  case (Cons x xs)
  show ?case
  proof (cases i)
    case 0
    then show ?thesis by (simp only: preenche_Cons nth_Cons_0 drop_0)
  next
    case (Suc j)
    with Cons.prems have "j < length xs" by simp
    from Cons.IH [OF this] Suc show ?thesis by (simp add: preenche_Cons)
  qed
qed

lemma preenche_tudo_zero:
  assumes "\<forall>m\<in>set ms. m = 0"
  shows "\<forall>x\<in>set (preenche ms). x = 0"
  using assms
proof (induction ms)
  case Nil
  show ?case by simp
next
  case (Cons x xs)
  have "find (\<lambda>m. m \<noteq> 0) (x # xs) = None"
    unfolding find_None_iff using Cons.prems by auto
  with Cons show ?case by (simp only: preenche_Cons) simp
qed

lemma find_primeiro:
  assumes "j < length ms" and "ms ! j \<noteq> 0" and "\<forall>i<j. ms ! i = 0" and "i \<le> j"
  shows "find (\<lambda>m. m \<noteq> 0) (drop i ms) = Some (ms ! j)"
proof -
  have "\<exists>n<length (drop i ms). drop i ms ! n \<noteq> 0 \<and> ms ! j = drop i ms ! n \<and>
      (\<forall>l<n. \<not> drop i ms ! l \<noteq> 0)"
  proof (intro exI conjI allI impI)
    show "j - i < length (drop i ms)"
      using assms by simp
    show "drop i ms ! (j - i) \<noteq> 0"
      using assms by simp
    show "ms ! j = drop i ms ! (j - i)"
      using assms by simp
    fix l assume "l < j - i"
    then have "i + l < j" by simp
    with assms(3) have "ms ! (i + l) = 0" by blast
    moreover have "i + l \<le> length ms"
      using \<open>i + l < j\<close> assms(1) by simp
    ultimately show "\<not> drop i ms ! l \<noteq> 0"
      using assms(1) \<open>i + l < j\<close> by simp
  qed
  then show ?thesis
    by (simp only: find_Some_iff)
qed

lemma preenche_ate_o_primeiro:
  assumes "j < length ms" and "ms ! j \<noteq> 0" and "\<forall>i<j. ms ! i = 0" and "i \<le> j"
  shows "preenche ms ! i = ms ! j"
proof -
  from assms have "i < length ms" by simp
  then show ?thesis
    by (simp add: preenche_nth find_primeiro [OF assms])
qed

lemma preenche_constante:
  assumes "ms \<noteq> []" and "last ms \<noteq> 0" and "\<forall>m\<in>set ms. m \<noteq> 0 \<longrightarrow> m = t"
  shows "\<forall>x\<in>set (preenche ms). x = t"
  using assms
proof (induction ms)
  case Nil
  then show ?case by simp
next
  case (Cons x xs)
  show ?case
  proof (cases "xs = []")
    case True
    with Cons.prems show ?thesis by (simp add: preenche_Cons)
  next
    case False
    with Cons.prems have l: "last xs \<noteq> 0" and a: "\<forall>m\<in>set xs. m \<noteq> 0 \<longrightarrow> m = t"
      by simp_all
    from Cons.IH [OF False l a] have ih: "\<forall>x\<in>set (preenche xs). x = t" .
    from False l have "last xs \<in> set xs" "last xs \<noteq> 0"
      by simp_all
    then have "find (\<lambda>m. m \<noteq> 0) xs \<noteq> None"
      by (auto simp: find_None_iff)
    then obtain m where m: "find (\<lambda>m. m \<noteq> 0) (x # xs) = Some m"
      by (cases "x = 0") auto
    from m [unfolded find_Some_iff] obtain n where n: "n < length (x # xs)"
      and nz: "(x # xs) ! n \<noteq> 0" and mn: "m = (x # xs) ! n"
      by blast
    from n mn have "m \<in> set (x # xs)"
      using nth_mem [OF n] by simp
    moreover from nz mn have "m \<noteq> 0"
      by simp
    ultimately have "m \<in> set (x # xs)" and "m \<noteq> 0" .
    with Cons.prems(3) have "m = t" by blast
    with m ih show ?thesis by (simp add: preenche_Cons)
  qed
qed

lemma meta_em_ordem_de_data:
  assumes "sorted (List.map_filter Data (grupo k df))"
  shows "map Meta_Mes (grupo k (carregar_dados df)) = preenche (map Meta_Mes (grupo k df))"
    and "map Data (grupo k (carregar_dados df)) = map Data (grupo k df)"
proof -
  let ?G = "grupo k df"
  have s: "sorted (map chave_ordem ?G)"
    using assms ordenado_no_grupo [OF grupo_chave, of k df] datas_no_grupo(2) [OF grupo_chave, of k df]
    by simp
  then have id: "sort_key chave_ordem ?G = ?G"
    by (rule sort_key_id_if_sorted)
  let ?D = "map (\<lambda>r. r\<lparr>DIAS := Some (length ?G)\<rparr>) ?G"
  let ?B = "map2 (\<lambda>r m. r\<lparr>Meta_Mes := m\<rparr>) ?D (preenche (map Meta_Mes ?G))"
  have "map chave_ordem ?B = map chave_ordem ?D"
    by (rule map_map2_fst) simp_all
  then have "sorted (map chave_ordem ?B)"
    using s by (simp add: o_def)
  then have S: "etapa_ordenada k df = ?B"
    unfolding etapa_ordenada_eq by (rule sort_key_id_if_sorted)
  have "map Meta_Mes (grupo k (carregar_dados df)) =
      map Meta_Mes (map2 (\<lambda>r v. r\<lparr>Real_Variacao := v\<rparr>) (etapa_ordenada k df)
          (variacao (map Real_col (etapa_ordenada k df))))"
    by (simp add: grupo_carregar_dados o_def)
  also have "\<dots> = map Meta_Mes (etapa_ordenada k df)"
    by (rule map_map2_fst) simp_all
  also have "\<dots> = preenche (map Meta_Mes ?G)"
    unfolding S by (rule map_map2_snd) simp_all
  finally show "map Meta_Mes (grupo k (carregar_dados df)) = preenche (map Meta_Mes ?G)" .
  have "map Data (grupo k (carregar_dados df)) = map Data (sort_key chave_ordem ?G)"
    by (rule coluna_carregar_dados) simp_all
  then show "map Data (grupo k (carregar_dados df)) = map Data ?G"
    by (simp only: id)
qed

lemma carga_meta_no_inicio:
  "carregar_dados meta_no_inicio =
     [(lancamento ''A'' 1 100 500)
        \<lparr>DIAS := Some 2, Real_Variacao := Some 100, Meta_Dia := Some 250\<rparr>,
      (lancamento ''A'' 2 250 0)
        \<lparr>DIAS := Some 2, Real_Variacao := Some 150, Meta_Dia := Some 0\<rparr>]"
  by (simp add: meta_no_inicio_def avalia_carga)

lemma grupo_meta_no_inicio:
  "grupo (''A'', 2024, 1) (carregar_dados meta_no_inicio) = carregar_dados meta_no_inicio"
  "grupo (''A'', 2024, 1) meta_no_inicio = meta_no_inicio"
  by (simp_all add: meta_no_inicio_def avalia_carga)

text \<open>
  Claim C1 as stated fails: a group in date order whose only target stands on the
  first day keeps the zero of the second day, so \<^verbatim>\<open>Meta Mes\<close> is not constant in the
  group and the second row does not carry the first non-zero target.
\<close>

theorem meta_nao_e_constante:
  "map Data (grupo (''A'', 2024, 1) meta_no_inicio) =
     [Some (2024, 1, 1, 0), Some (2024, 1, 2, 0)] \<and>
   map Meta_Mes (grupo (''A'', 2024, 1) meta_no_inicio) = [500, 0] \<and>
   map Data (grupo (''A'', 2024, 1) (carregar_dados meta_no_inicio)) =
     [Some (2024, 1, 1, 0), Some (2024, 1, 2, 0)] \<and>
   map Meta_Mes (grupo (''A'', 2024, 1) (carregar_dados meta_no_inicio)) = [500, 0]"
proof -
  have "map Data meta_no_inicio = [Some (2024, 1, 1, 0), Some (2024, 1, 2, 0)]"
    "map Meta_Mes meta_no_inicio = [500, 0]"
    by (simp_all add: meta_no_inicio_def lancamento_def)
  moreover have "map Data (carregar_dados meta_no_inicio) =
      [Some (2024, 1, 1, 0), Some (2024, 1, 2, 0)]"
    "map Meta_Mes (carregar_dados meta_no_inicio) = [500, 0]"
    by (simp_all add: carga_meta_no_inicio lancamento_def)
  ultimately show ?thesis
    by (simp only: grupo_meta_no_inicio)
qed

text \<open>
  Claim C1, amended. Take a (store, month) group whose rows stand in increasing date
  order in the table the loader reads. After the loader has run, each row of the group
  carries the first non-zero target found when scanning the group in date order from
  that row on (zero treated as missing), and zero when there is none. So every row up
  to and including the first row with a non-zero target carries that first non-zero
  target; \<^verbatim>\<open>Meta Mes\<close> is constant in the group when the last row has a non-zero target
  and all non-zero targets of the group are equal; and if no row of the group has a
  non-zero target, every row resolves to zero.
\<close>

theorem meta_do_grupo_em_ordem_de_data:
  assumes "sorted (List.map_filter Data (grupo k df))"
  shows
    "map Data (grupo k (carregar_dados df)) = map Data (grupo k df) \<and>
     (\<forall>i<length (grupo k df).
        Meta_Mes (grupo k (carregar_dados df) ! i) =
          (case find (\<lambda>m. m \<noteq> 0) (drop i (map Meta_Mes (grupo k df))) of
             None \<Rightarrow> 0
           | Some m \<Rightarrow> m)) \<and>
     (\<forall>j<length (grupo k df).
        Meta_Mes (grupo k df ! j) \<noteq> 0 \<and> (\<forall>i<j. Meta_Mes (grupo k df ! i) = 0) \<longrightarrow>
        (\<forall>i\<le>j. Meta_Mes (grupo k (carregar_dados df) ! i) = Meta_Mes (grupo k df ! j))) \<and>
     (grupo k df \<noteq> [] \<and> Meta_Mes (last (grupo k df)) \<noteq> 0 \<and>
      (\<forall>r\<in>set (grupo k df). Meta_Mes r \<noteq> 0 \<longrightarrow> Meta_Mes r = t) \<longrightarrow>
        (\<forall>r\<in>set (grupo k (carregar_dados df)). Meta_Mes r = t)) \<and>
     ((\<forall>r\<in>set (grupo k df). Meta_Mes r = 0) \<longrightarrow>
        (\<forall>r\<in>set (grupo k (carregar_dados df)). Meta_Mes r = 0))"
proof -
  let ?G = "grupo k df"
  let ?N = "grupo k (carregar_dados df)"
  let ?ms = "map Meta_Mes ?G"
  note M = meta_em_ordem_de_data [OF assms]
  have len: "length ?N = length ?G"
    by simp
  have nth: "Meta_Mes (?N ! i) = preenche ?ms ! i" if "i < length ?G" for i
  proof -
    from that len have "i < length ?N" by simp
    then have "Meta_Mes (?N ! i) = map Meta_Mes ?N ! i"
      by (simp del: length_grupo_carregar_dados)
    then show ?thesis by (simp only: M(1))
  qed
  have a: "\<forall>i<length ?G. Meta_Mes (?N ! i) =
      (case find (\<lambda>m. m \<noteq> 0) (drop i ?ms) of None \<Rightarrow> 0 | Some m \<Rightarrow> m)"
    using nth by (simp add: preenche_nth)
  have b: "\<forall>j<length ?G.
      Meta_Mes (?G ! j) \<noteq> 0 \<and> (\<forall>i<j. Meta_Mes (?G ! i) = 0) \<longrightarrow>
      (\<forall>i\<le>j. Meta_Mes (?N ! i) = Meta_Mes (?G ! j))"
  proof (intro allI impI)
    fix j i
    assume j: "j < length ?G"
      and h: "Meta_Mes (?G ! j) \<noteq> 0 \<and> (\<forall>i<j. Meta_Mes (?G ! i) = 0)"
      and i: "i \<le> j"
    from j have j': "j < length ?ms" by simp
    from h j have nz: "?ms ! j \<noteq> 0" by simp
    from h j have z: "\<forall>i<j. ?ms ! i = 0" by simp
    from preenche_ate_o_primeiro [OF j' nz z i] have "preenche ?ms ! i = ?ms ! j" .
    moreover from i j have "i < length ?G" by simp
    ultimately show "Meta_Mes (?N ! i) = Meta_Mes (?G ! j)"
      using nth [of i] j by simp
  qed
  have set_eq: "Meta_Mes ` set ?N = set (preenche ?ms)"
    using arg_cong [OF M(1), of set] by simp
  have c: "?G \<noteq> [] \<and> Meta_Mes (last ?G) \<noteq> 0 \<and>
      (\<forall>r\<in>set ?G. Meta_Mes r \<noteq> 0 \<longrightarrow> Meta_Mes r = t) \<longrightarrow>
      (\<forall>r\<in>set ?N. Meta_Mes r = t)"
  proof (intro impI ballI)
    fix r
    assume h: "?G \<noteq> [] \<and> Meta_Mes (last ?G) \<noteq> 0 \<and>
      (\<forall>r\<in>set ?G. Meta_Mes r \<noteq> 0 \<longrightarrow> Meta_Mes r = t)" and r: "r \<in> set ?N"
    from h have ne: "?ms \<noteq> []" and l: "last ?ms \<noteq> 0"
      and eq: "\<forall>m\<in>set ?ms. m \<noteq> 0 \<longrightarrow> m = t"
      by (auto simp: last_map)
    from r set_eq have "Meta_Mes r \<in> set (preenche ?ms)"
      by blast
    with preenche_constante [OF ne l eq] show "Meta_Mes r = t"
      by blast
  qed
  have d: "(\<forall>r\<in>set ?G. Meta_Mes r = 0) \<longrightarrow> (\<forall>r\<in>set ?N. Meta_Mes r = 0)"
  proof (intro impI ballI)
    fix r
    assume h: "\<forall>r\<in>set ?G. Meta_Mes r = 0" and r: "r \<in> set ?N"
    from h have z: "\<forall>m\<in>set ?ms. m = 0"
      by simp
    from r set_eq have "Meta_Mes r \<in> set (preenche ?ms)"
      by blast
    with preenche_tudo_zero [OF z] show "Meta_Mes r = 0"
      by blast
  qed
  show ?thesis
    using M(2) a b c d by (intro conjI)
qed

theorem meta_do_grupo_em_ordem_de_data_witness:
  "sorted (List.map_filter Data (grupo (''A'', 2024, 1) cenario)) \<and>
   map Meta_Mes (grupo (''A'', 2024, 1) cenario) = [0, 600] \<and>
   Meta_Mes (grupo (''A'', 2024, 1) (carregar_dados cenario) ! 0) = 600 \<and>
   Meta_Mes (grupo (''A'', 2024, 1) (carregar_dados cenario) ! 1) = 600"
proof -
  have g: "grupo (''A'', 2024, 1) cenario = [lancamento ''A'' 1 100 0, lancamento ''A'' 2 300 600]"
    by (simp add: cenario_def grupo_def chave_def ano_mes_def lancamento_def)
  have s: "sorted (List.map_filter Data (grupo (''A'', 2024, 1) cenario))"
    unfolding g
    by (simp add: List.map_filter_def lancamento_def less_eq_prod_def less_prod_def)
  have ms: "map Meta_Mes (grupo (''A'', 2024, 1) cenario) = [0, 600]"
    unfolding g by (simp add: lancamento_def)
  note T = meta_do_grupo_em_ordem_de_data [OF s, THEN conjunct2, THEN conjunct1, rule_format]
  have l0: "0 < length (grupo (''A'', 2024, 1) cenario)"
    and l1: "1 < length (grupo (''A'', 2024, 1) cenario)"
    unfolding g by simp_all
  have a: "Meta_Mes (grupo (''A'', 2024, 1) (carregar_dados cenario) ! 0) = 600"
    using T [OF l0] unfolding ms by simp
  have b: "Meta_Mes (grupo (''A'', 2024, 1) (carregar_dados cenario) ! 1) = 600"
    using T [OF l1] unfolding ms by simp
  show ?thesis
    using s ms a b by (intro conjI)
qed

text \<open>
  Claim C2 on a group that the table holds with the later day first. The loader
  back-fills (lines 80 to 86) before it sorts (line 89), so the zero target of day 2
  takes the target of day 1, which follows it in the table and precedes it in time:
  both rows end with 500. A back-fill in date order leaves the zero of day 2 without a
  later target and gives 500 and 0.
\<close>

theorem backfill_antes_da_ordenacao:
  "map (\<lambda>r. (Data r, Meta_Mes r)) fora_de_ordem =
     [(Some (2024, 1, 2, 0), 0), (Some (2024, 1, 1, 0), 500)] \<and>
   map Meta_Mes (backfill_meta (merge_dias fora_de_ordem)) = [500, 500] \<and>
   map (\<lambda>r. (Data r, Meta_Mes r)) (carregar_dados fora_de_ordem) =
     [(Some (2024, 1, 1, 0), 500), (Some (2024, 1, 2, 0), 500)] \<and>
   map (\<lambda>r. (Data r, Meta_Mes r)) (sort_key chave_ordem fora_de_ordem) =
     [(Some (2024, 1, 1, 0), 500), (Some (2024, 1, 2, 0), 0)] \<and>
   preenche (map Meta_Mes (sort_key chave_ordem fora_de_ordem)) = [500, 0]"
proof -
  have a: "map (\<lambda>r. (Data r, Meta_Mes r)) fora_de_ordem =
      [(Some (2024, 1, 2, 0), 0), (Some (2024, 1, 1, 0), 500)]"
    by (simp add: fora_de_ordem_def lancamento_def)
  have b: "map Meta_Mes (backfill_meta (merge_dias fora_de_ordem)) = [500, 500]"
    by (simp add: fora_de_ordem_def avalia_carga)
  have c: "map (\<lambda>r. (Data r, Meta_Mes r)) (carregar_dados fora_de_ordem) =
      [(Some (2024, 1, 1, 0), 500), (Some (2024, 1, 2, 0), 500)]"
    by (simp add: carga_fora_de_ordem lancamento_def)
  have o: "sort_key chave_ordem fora_de_ordem =
      [lancamento ''A'' 1 100 500, lancamento ''A'' 2 250 0]"
    by (simp add: fora_de_ordem_def avalia_carga)
  have d: "map (\<lambda>r. (Data r, Meta_Mes r)) (sort_key chave_ordem fora_de_ordem) =
      [(Some (2024, 1, 1, 0), 500), (Some (2024, 1, 2, 0), 0)]"
    unfolding o by (simp add: lancamento_def)
  have e: "preenche (map Meta_Mes (sort_key chave_ordem fora_de_ordem)) = [500, 0]"
    unfolding o by (simp add: lancamento_def preenche_Cons)
  show ?thesis
    using a b c d e by (intro conjI)
qed

end
